theory Spec2Isabelle
  imports Main
begin

section \<open>The process: arguments, environment, observable events\<close>

text \<open>
  The programs of this repository act on the operating-system process they run in: they
  read \<^verbatim>\<open>os.Args\<close>, look variables up in the process environment, let
  \<^verbatim>\<open>godotenv.Load\<close> read the file \<^verbatim>\<open>.env\<close>, write to standard output and to
  the log. The process is an explicit state; every such action is a function on it and
  leaves an event in \<open>Trace\<close>, in program order.
\<close>

text \<open>
  Go's \<^verbatim>\<open>error\<close> values. The two errors of package \<^verbatim>\<open>strconv\<close> are told apart by the
  code that is modelled; any other error is its message.
\<close>

datatype error =
    ErrSyntax
  | ErrRange
  | ErrOther string

text \<open>
  \<^verbatim>\<open>err.Error()\<close>. For the two errors of \<^verbatim>\<open>strconv\<close> this is the text of the underlying
  error; \<^verbatim>\<open>LoadConfig\<close> discards them, so no log line ever shows them.
\<close>

fun Error :: "error \<Rightarrow> string" where
  "Error ErrSyntax = ''invalid syntax''"
| "Error ErrRange = ''value out of range''"
| "Error (ErrOther msg) = msg"

datatype level = InfoLevel | FatalLevel

datatype event =
    Stdout string
  | DotEnvRead
  | EnvLookup string
  | LogLine level string "(string \<times> string) list"
  | SubsystemStart string
  | SubsystemStop string

type_synonym environ = "string \<rightharpoonup> string"

text \<open>
  \<open>DotEnv\<close> is what reading and parsing \<^verbatim>\<open>.env\<close> in the working directory gives: an
  error (no such file, unreadable, malformed, ...) or the file's key/value pairs.
\<close>

record proc =
  Args :: "string list"
  Environ :: environ
  DotEnv :: "error + environ"
  Trace :: "event list"

definition emit :: "event \<Rightarrow> proc \<Rightarrow> proc" where
  "emit e p = p\<lparr>Trace := Trace p @ [e]\<rparr>"

text \<open>\<^verbatim>\<open>os.LookupEnv(key)\<close>: the value and whether the variable is present.\<close>

definition os_LookupEnv :: "string \<Rightarrow> proc \<Rightarrow> string option \<times> proc" where
  "os_LookupEnv key p = (Environ p key, emit (EnvLookup key) p)"

text \<open>
  \<^verbatim>\<open>godotenv.Load()\<close> with no file names reads \<^verbatim>\<open>.env\<close>. When the file cannot be read
  or parsed it returns the error and sets nothing. Otherwise it sets every pair of the
  file whose key is not already present in the process environment (it never overrides a
  variable that exists) and returns nil.
\<close>

definition godotenv_Load :: "proc \<Rightarrow> error option \<times> proc" where
  "godotenv_Load p =
     (case DotEnv p of
        Inl err \<Rightarrow> (Some err, emit DotEnvRead p)
      | Inr envMap \<Rightarrow> (None, emit DotEnvRead (p\<lparr>Environ := envMap ++ Environ p\<rparr>)))"

section \<open>\<^verbatim>\<open>strconv.Atoi\<close>\<close>

text \<open>
  \<^verbatim>\<open>LoadConfig\<close> uses the value \<^verbatim>\<open>strconv.Atoi\<close> returns and discards its error, so the
  model keeps both results of every function: the pair \<open>(value, error)\<close>, \<open>None\<close> for nil.
  Bytes and machine integers are natural numbers and integers with the wrap-around of
  the Go operations written out. \<^verbatim>\<open>int\<close> has 64 bits (the binary is built for Linux on a
  64-bit architecture).
\<close>

definition intSize :: nat where
  "intSize = 64"

definition maxUint64 :: nat where
  "maxUint64 = 2 ^ 64 - 1"

text \<open>A byte minus a byte, as Go computes it on \<^verbatim>\<open>byte\<close>.\<close>

definition byte_sub :: "nat \<Rightarrow> nat \<Rightarrow> nat" where
  "byte_sub a b = (a + 256 - b) mod 256"

text \<open>\<^verbatim>\<open>lower(c) = c | ('x' - 'X')\<close>: sets bit 5 of the byte.\<close>

definition lower :: "nat \<Rightarrow> nat" where
  "lower c = (if (c div 32) mod 2 = 0 then c + 32 else c)"

text \<open>
  The \<^verbatim>\<open>switch\<close> of \<^verbatim>\<open>ParseUint\<close> on the byte \<open>c\<close>: the digit it stands for, or \<open>None\<close>
  where the source returns a syntax error. The underscore case needs base 0 and is never
  taken.
\<close>

definition digit_of :: "nat \<Rightarrow> nat option" where
  "digit_of c =
     (if 48 \<le> c \<and> c \<le> 57 then Some (byte_sub c 48)
      else if 97 \<le> lower c \<and> lower c \<le> 122 then Some ((byte_sub (lower c) 97 + 10) mod 256)
      else None)"

text \<open>
  The loop of \<^verbatim>\<open>ParseUint\<close> for base 10 and bit size 64, over the bytes of the string;
  \<open>n\<close> is the \<^verbatim>\<open>uint64\<close> accumulator. The range error is returned at the first digit
  that overflows, before the bytes after it are read.
\<close>

fun ParseUint_loop :: "string \<Rightarrow> nat \<Rightarrow> nat \<times> error option" where
  "ParseUint_loop [] n = (n, None)"
| "ParseUint_loop (ch # rest) n =
     (case digit_of (of_char ch) of
        None \<Rightarrow> (0, Some ErrSyntax)
      | Some d \<Rightarrow>
          if d \<ge> 10 then (0, Some ErrSyntax)
          else if n \<ge> maxUint64 div 10 + 1 then (maxUint64, Some ErrRange)
          else
            (let n' = (n * 10) mod 2 ^ 64;
                 n1 = (n' + d) mod 2 ^ 64
             in if n1 < n' \<or> n1 > maxUint64 then (maxUint64, Some ErrRange)
                else ParseUint_loop rest n1))"

text \<open>\<^verbatim>\<open>ParseUint(s, 10, 0)\<close>.\<close>

definition ParseUint :: "string \<Rightarrow> nat \<times> error option" where
  "ParseUint s = (if s = [] then (0, Some ErrSyntax) else ParseUint_loop s 0)"

text \<open>
  \<^verbatim>\<open>int64(un)\<close> and the negation of an \<^verbatim>\<open>int64\<close>, both modulo \<open>2 ^ 64\<close>.
\<close>

definition int64_of_uint64 :: "nat \<Rightarrow> int" where
  "int64_of_uint64 un = (if un < 2 ^ 63 then int un else int un - 2 ^ 64)"

definition neg_int64 :: "int \<Rightarrow> int" where
  "neg_int64 n = (if n = - (2 ^ 63) then n else - n)"

text \<open>\<^verbatim>\<open>ParseInt(s, 10, 0)\<close>.\<close>

definition ParseInt :: "string \<Rightarrow> int \<times> error option" where
  "ParseInt s =
     (case s of
        [] \<Rightarrow> (0, Some ErrSyntax)
      | c0 # s1 \<Rightarrow>
          (let neg = (c0 = CHR ''-'');
               s' = (if c0 = CHR ''+'' \<or> c0 = CHR ''-'' then s1 else s);
               (un, err) = ParseUint s'
           in if err \<noteq> None \<and> err \<noteq> Some ErrRange then (0, err)
              else
                (let cutoff = (2 ^ (intSize - 1) :: nat) in
                 if \<not> neg \<and> un \<ge> cutoff then (int64_of_uint64 (cutoff - 1), Some ErrRange)
                 else if neg \<and> un > cutoff then (neg_int64 (int64_of_uint64 cutoff), Some ErrRange)
                 else (if neg then neg_int64 (int64_of_uint64 un) else int64_of_uint64 un, None))))"

text \<open>
  The loop of the fast path of \<^verbatim>\<open>Atoi\<close>, taken for strings short enough to fit \<^verbatim>\<open>int\<close>
  (fewer than 19 bytes when \<^verbatim>\<open>int\<close> has 64 bits): \<open>None\<close> is the return of a syntax error
  from inside the loop.
\<close>

fun Atoi_loop :: "string \<Rightarrow> int \<Rightarrow> int option" where
  "Atoi_loop [] n = Some n"
| "Atoi_loop (c # rest) n =
     (let ch = byte_sub (of_char c) 48 in
      if ch > 9 then None else Atoi_loop rest (n * 10 + int ch))"

definition Atoi :: "string \<Rightarrow> int \<times> error option" where
  "Atoi s =
     (let sLen = length s in
      if intSize = 32 \<and> (0 < sLen \<and> sLen < 10) \<or> intSize = 64 \<and> (0 < sLen \<and> sLen < 19) then
        (case s of
           [] \<Rightarrow> (0, Some ErrSyntax)
         | c0 # s1 \<Rightarrow>
             (let signed = (c0 = CHR ''-'' \<or> c0 = CHR ''+'');
                  s' = (if signed then s1 else s)
              in if signed \<and> length s' < 1 then (0, Some ErrSyntax)
                 else
                   (case Atoi_loop s' 0 of
                      None \<Rightarrow> (0, Some ErrSyntax)
                    | Some n \<Rightarrow> (if c0 = CHR ''-'' then - n else n, None))))
      else ParseInt s)"

section \<open>Package config\<close>

record DBConfig =
  Host :: string
  Port :: string
  User :: string
  Password :: string
  Name :: string

record RedisConfig =
  Host :: string
  Port :: string
  Password :: string
  DB :: int

record ServerConf =
  Address :: string
  Port :: string

record JaegerConfig =
  AgentHost :: string
  AgentPort :: string

record Service =
  Name :: string
  dbEnv :: DBConfig
  redisEnv :: RedisConfig
  srvConfg :: ServerConf
  jaegerConfig :: JaegerConfig

text \<open>
  \<^verbatim>\<open>NewService\<close> sets the name only; Go gives every other field its zero value. The
  methods below take the \<open>Service\<close> the receiver points to.
\<close>

definition NewService :: Service where
  "NewService =
     \<lparr>Service.Name = ''go-rest-api-template'',
      dbEnv = \<lparr>DBConfig.Host = [], DBConfig.Port = [], User = [],
               DBConfig.Password = [], DBConfig.Name = []\<rparr>,
      redisEnv = \<lparr>RedisConfig.Host = [], RedisConfig.Port = [],
                  RedisConfig.Password = [], DB = 0\<rparr>,
      srvConfg = \<lparr>Address = [], ServerConf.Port = []\<rparr>,
      jaegerConfig = \<lparr>AgentHost = [], AgentPort = []\<rparr>\<rparr>"

definition getEnv :: "string \<Rightarrow> string \<Rightarrow> proc \<Rightarrow> string \<times> proc" where
  "getEnv key defaultValue p =
     (case os_LookupEnv key p of
        (Some v, p') \<Rightarrow> (v, p')
      | (None, p') \<Rightarrow> (defaultValue, p'))"

text \<open>
  \<^verbatim>\<open>LoadConfig\<close>: the calls in the order the source evaluates them. The error of
  \<^verbatim>\<open>godotenv.Load\<close> and the error of \<^verbatim>\<open>strconv.Atoi\<close> are assigned to the blank
  identifier. The result is the returned error, the service and the process.
\<close>

definition LoadConfig :: "Service \<Rightarrow> proc \<Rightarrow> error option \<times> Service \<times> proc" where
  "LoadConfig cnf p0 =
     (let (_, p1) = godotenv_Load p0;
          (dbPort, p2) = getEnv ''DB_PORT'' ''3306'' p1;
          (dbHost, p3) = getEnv ''DB_HOST'' ''localhost'' p2;
          (dbUser, p4) = getEnv ''DB_USER'' ''user'' p3;
          (dbPassword, p5) = getEnv ''DB_PASSWORD'' ''password'' p4;
          (dbName, p6) = getEnv ''DB_NAME'' ''mydatabase'' p5;
          cnf1 = cnf\<lparr>dbEnv :=
                   \<lparr>DBConfig.Host = dbHost, DBConfig.Port = dbPort, User = dbUser,
                    DBConfig.Password = dbPassword, DBConfig.Name = dbName\<rparr>\<rparr>;
          (redisDBStr, p7) = getEnv ''REDIS_DB'' ''0'' p6;
          (redisDB, _) = Atoi redisDBStr;
          (redisHost, p8) = getEnv ''REDIS_HOST'' ''localhost'' p7;
          (redisPort, p9) = getEnv ''REDIS_PORT'' ''6379'' p8;
          (redisPassword, p10) = getEnv ''REDIS_PASSWORD'' [] p9;
          cnf2 = cnf1\<lparr>redisEnv :=
                   \<lparr>RedisConfig.Host = redisHost, RedisConfig.Port = redisPort,
                    RedisConfig.Password = redisPassword, DB = redisDB\<rparr>\<rparr>;
          (srvAddr, p11) = getEnv ''SERVER_ADDR'' [] p10;
          (srvPort, p12) = getEnv ''SERVER_PORT'' ''8080'' p11;
          cnf3 = cnf2\<lparr>srvConfg := \<lparr>Address = srvAddr, ServerConf.Port = srvPort\<rparr>\<rparr>;
          (jaegerHost, p13) = getEnv ''JAEGER_AGENT_HOST'' ''localhost'' p12;
          (jaegerPort, p14) = getEnv ''JAEGER_AGENT_PORT'' ''6831'' p13;
          cnf4 = cnf3\<lparr>jaegerConfig := \<lparr>AgentHost = jaegerHost, AgentPort = jaegerPort\<rparr>\<rparr>
      in (None, cnf4, p14))"

definition Init :: "Service \<Rightarrow> proc \<Rightarrow> error option \<times> Service \<times> proc" where
  "Init cnf p = LoadConfig cnf p"

definition GetDBConfig :: "Service \<Rightarrow> DBConfig" where
  "GetDBConfig cnf = dbEnv cnf"

definition GetRedisConfig :: "Service \<Rightarrow> RedisConfig" where
  "GetRedisConfig cnf = redisEnv cnf"

definition GetServerConfig :: "Service \<Rightarrow> ServerConf" where
  "GetServerConfig cnf = srvConfg cnf"

definition GetJaegerConfig :: "Service \<Rightarrow> JaegerConfig" where
  "GetJaegerConfig cnf = jaegerConfig cnf"

section \<open>Decimal numerals\<close>

text \<open>
  What a string denotes as a decimal numeral, independently of the parsing code: an
  optional sign followed by decimal digits.
\<close>

definition is_digit :: "char \<Rightarrow> bool" where
  "is_digit c = (48 \<le> (of_char c :: nat) \<and> (of_char c :: nat) \<le> 57)"

definition digit_val :: "char \<Rightarrow> nat" where
  "digit_val c = of_char c - 48"

fun dec_from :: "nat \<Rightarrow> string \<Rightarrow> nat" where
  "dec_from n [] = n"
| "dec_from n (c # cs) = dec_from (n * 10 + digit_val c) cs"

definition dec_val :: "string \<Rightarrow> nat" where
  "dec_val s = dec_from 0 s"

definition unsigned :: "string \<Rightarrow> string" where
  "unsigned v =
     (case v of
        [] \<Rightarrow> []
      | c # cs \<Rightarrow> if c = CHR ''+'' \<or> c = CHR ''-'' then cs else v)"

definition negative :: "string \<Rightarrow> bool" where
  "negative v = (case v of [] \<Rightarrow> False | c # cs \<Rightarrow> c = CHR ''-'')"

definition numeric :: "string \<Rightarrow> bool" where
  "numeric v = (unsigned v \<noteq> [] \<and> list_all is_digit (unsigned v))"

definition int_val :: "string \<Rightarrow> int" where
  "int_val v = (if negative v then - int (dec_val (unsigned v)) else int (dec_val (unsigned v)))"

definition in_int_range :: "int \<Rightarrow> bool" where
  "in_int_range i = (- (2 ^ 63) \<le> i \<and> i < 2 ^ 63)"

text \<open>
  The result of \<^verbatim>\<open>Atoi\<close> stated on the numeral: \<open>0\<close> and a syntax error for a string
  that is empty, a lone sign, or has a byte that is no digit before its digits leave the
  \<^verbatim>\<open>uint64\<close> range; the bound of \<^verbatim>\<open>int\<close> nearest to the number and a range error when
  the digits read denote a number outside \<^verbatim>\<open>int\<close>; the number otherwise.
\<close>

definition Atoi_spec :: "string \<Rightarrow> int \<times> error option" where
  "Atoi_spec v =
     (let u = unsigned v;
          ds = takeWhile is_digit u
      in if u = [] then (0, Some ErrSyntax)
         else if dec_val ds < 2 ^ 64 \<and> ds \<noteq> u then (0, Some ErrSyntax)
         else if negative v then
           (if dec_val ds > 2 ^ 63 then (- (2 ^ 63), Some ErrRange)
            else (- int (dec_val ds), None))
         else
           (if dec_val ds \<ge> 2 ^ 63 then (2 ^ 63 - 1, Some ErrRange)
            else (int (dec_val ds), None)))"

text \<open>
  The environment that the lookups of \<^verbatim>\<open>LoadConfig\<close> read: the process environment
  after \<^verbatim>\<open>godotenv.Load\<close>. \<open>resolve\<close> is a variable's value there, or the default.
\<close>

definition effective_env :: "proc \<Rightarrow> environ" where
  "effective_env p = (case DotEnv p of Inl err \<Rightarrow> Environ p | Inr envMap \<Rightarrow> envMap ++ Environ p)"

definition resolve :: "environ \<Rightarrow> string \<Rightarrow> string \<Rightarrow> string" where
  "resolve env key defaultValue = (case env key of Some v \<Rightarrow> v | None \<Rightarrow> defaultValue)"

text \<open>
  The claim of the spec for one variable: unset gives the documented default, set gives
  the value.
\<close>

definition resolves_to :: "environ \<Rightarrow> string \<Rightarrow> string \<Rightarrow> string \<Rightarrow> bool" where
  "resolves_to env key defaultValue field =
     ((env key = None \<longrightarrow> field = defaultValue) \<and> (\<forall>v. env key = Some v \<longrightarrow> field = v))"

text \<open>
  The four groups as the table of the spec documents them, over an environment: every
  string setting is the variable's value or its default; \<open>DB\<close> is the number that the
  value or the default \<open>0\<close> denotes, as \<open>Atoi_spec\<close> gives it.
\<close>

definition documented_DBConfig :: "environ \<Rightarrow> DBConfig" where
  "documented_DBConfig env =
     \<lparr>DBConfig.Host = resolve env ''DB_HOST'' ''localhost'',
      DBConfig.Port = resolve env ''DB_PORT'' ''3306'',
      User = resolve env ''DB_USER'' ''user'',
      DBConfig.Password = resolve env ''DB_PASSWORD'' ''password'',
      DBConfig.Name = resolve env ''DB_NAME'' ''mydatabase''\<rparr>"

definition documented_RedisConfig :: "environ \<Rightarrow> RedisConfig" where
  "documented_RedisConfig env =
     \<lparr>RedisConfig.Host = resolve env ''REDIS_HOST'' ''localhost'',
      RedisConfig.Port = resolve env ''REDIS_PORT'' ''6379'',
      RedisConfig.Password = resolve env ''REDIS_PASSWORD'' [],
      DB = fst (Atoi_spec (resolve env ''REDIS_DB'' ''0''))\<rparr>"

definition documented_ServerConf :: "environ \<Rightarrow> ServerConf" where
  "documented_ServerConf env =
     \<lparr>Address = resolve env ''SERVER_ADDR'' [],
      ServerConf.Port = resolve env ''SERVER_PORT'' ''8080''\<rparr>"

definition documented_JaegerConfig :: "environ \<Rightarrow> JaegerConfig" where
  "documented_JaegerConfig env =
     \<lparr>AgentHost = resolve env ''JAEGER_AGENT_HOST'' ''localhost'',
      AgentPort = resolve env ''JAEGER_AGENT_PORT'' ''6831''\<rparr>"

text \<open>The events of \<^verbatim>\<open>LoadConfig\<close>, in program order.\<close>

definition LoadConfig_events :: "event list" where
  "LoadConfig_events =
     [DotEnvRead,
      EnvLookup ''DB_PORT'', EnvLookup ''DB_HOST'', EnvLookup ''DB_USER'',
      EnvLookup ''DB_PASSWORD'', EnvLookup ''DB_NAME'',
      EnvLookup ''REDIS_DB'', EnvLookup ''REDIS_HOST'', EnvLookup ''REDIS_PORT'',
      EnvLookup ''REDIS_PASSWORD'',
      EnvLookup ''SERVER_ADDR'', EnvLookup ''SERVER_PORT'',
      EnvLookup ''JAEGER_AGENT_HOST'', EnvLookup ''JAEGER_AGENT_PORT'']"

section \<open>Packages application and logger\<close>

text \<open>
  \<^verbatim>\<open>main\<close> calls \<^verbatim>\<open>NewApplication\<close>, \<^verbatim>\<open>Initialize\<close>, \<^verbatim>\<open>GetLogger\<close> and \<^verbatim>\<open>Run\<close> of package
  \<^verbatim>\<open>application\<close>, whose code is not among the sources. \<^verbatim>\<open>main\<close> is modelled over any
  implementation of the four: each method takes the application and the process and
  returns its error, the application and the process.
\<close>

record ('app, 'logger) application_pkg =
  NewApplication :: "'app"
  Initialize :: "'app \<Rightarrow> proc \<Rightarrow> error option \<times> 'app \<times> proc"
  GetLogger :: "'app \<Rightarrow> 'logger"
  Run :: "'app \<Rightarrow> proc \<Rightarrow> error option \<times> 'app \<times> proc"

text \<open>
  Modelled from the spec: the logger's \<^verbatim>\<open>Info\<close> and \<^verbatim>\<open>Fatal\<close> (package \<^verbatim>\<open>logger\<close> is not
  among the sources). A log call writes one structured line: level, message and the
  key/value fields. \<^verbatim>\<open>Fatal\<close> writes its line and then terminates the process with a
  non-zero status, which is the second component of its result; the spec fixes no
  number, the model takes 1. The logger that \<^verbatim>\<open>GetLogger\<close> returns is usable also after an
  \<^verbatim>\<open>Initialize\<close> that failed.
\<close>

definition Logger_Info :: "'logger \<Rightarrow> string \<Rightarrow> (string \<times> string) list \<Rightarrow> proc \<Rightarrow> proc" where
  "Logger_Info l msg kvs p = emit (LogLine InfoLevel msg kvs) p"

definition Logger_Fatal :: "'logger \<Rightarrow> string \<Rightarrow> (string \<times> string) list \<Rightarrow> proc \<Rightarrow> proc \<times> nat" where
  "Logger_Fatal l msg kvs p = (emit (LogLine FatalLevel msg kvs) p, 1)"

text \<open>
  Modelled from the spec: the Lifecycle Controller of package \<^verbatim>\<open>application\<close> (not among
  the sources). Its state is the lifecycle tag of the spec; it owns the configuration
  service. What the controller meets at run time is the parameter \<open>faults\<close>: the failure
  to construct the logger, the failure to wire a subsystem that depends on the
  configuration, the unrecoverable runtime error that ends \<^verbatim>\<open>Run\<close> (\<open>None\<close>: a termination
  signal ends it), and the failure of the shutdown.
\<close>

datatype ApplicationState = Uninitialized | Initialized | Running | ShuttingDown | Stopped

record Application =
  state :: ApplicationState
  config :: Service

record faults =
  logger_fault :: "error option"
  wiring_fault :: "error option"
  runtime_fault :: "error option"
  shutdown_fault :: "error option"

text \<open>
  Modelled from the spec: \<^verbatim>\<open>Initialize\<close> constructs the logger, invokes \<^verbatim>\<open>LoadConfig\<close> of
  the configuration service and wires the subsystems; it returns an error when a
  mandatory subsystem cannot be constructed, and a descriptive error from any state
  other than \<open>Uninitialized\<close>.
\<close>

definition Application_Initialize ::
  "faults \<Rightarrow> Application \<Rightarrow> proc \<Rightarrow> error option \<times> Application \<times> proc" where
  "Application_Initialize f app p =
     (if state app \<noteq> Uninitialized then
        (Some (ErrOther ''application: Initialize called twice''), app, p)
      else
        (case logger_fault f of
           Some e \<Rightarrow> (Some e, app, p)
         | None \<Rightarrow>
             (case Init (config app) p of
                (Some e, cnf, p1) \<Rightarrow> (Some e, app\<lparr>config := cnf\<rparr>, p1)
              | (None, cnf, p1) \<Rightarrow>
                  (case wiring_fault f of
                     Some e \<Rightarrow> (Some e, app\<lparr>config := cnf\<rparr>, p1)
                   | None \<Rightarrow> (None, app\<lparr>config := cnf, state := Initialized\<rparr>, p1)))))"

text \<open>
  Modelled from the spec: \<^verbatim>\<open>Run\<close> called in any state other than \<open>Initialized\<close> returns a
  descriptive error and does nothing else. From \<open>Initialized\<close> it starts the serving
  subsystem (\<open>Running\<close>), waits for the termination signal or the runtime error
  (\<open>ShuttingDown\<close>), stops the subsystem and ends in \<open>Stopped\<close>; it returns nil on a clean
  shutdown, and an error if the trigger was an error or the shutdown failed.
\<close>

definition Application_Run ::
  "faults \<Rightarrow> Application \<Rightarrow> proc \<Rightarrow> error option \<times> Application \<times> proc" where
  "Application_Run f app p =
     (if state app \<noteq> Initialized then
        (Some (ErrOther ''application: Run called before Initialize''), app, p)
      else
        (let p1 = emit (SubsystemStart ''server'') p;
             p2 = emit (SubsystemStop ''server'') p1
         in (case runtime_fault f of Some e \<Rightarrow> Some e | None \<Rightarrow> shutdown_fault f,
             app\<lparr>state := Stopped\<rparr>, p2)))"

text \<open>
  Modelled from the spec: the package as \<^verbatim>\<open>main\<close> uses it. \<^verbatim>\<open>NewApplication\<close> gives a
  controller in state \<open>Uninitialized\<close> that owns a new configuration service.
\<close>

definition application :: "faults \<Rightarrow> (Application, unit) application_pkg" where
  "application f =
     \<lparr>NewApplication = \<lparr>state = Uninitialized, config = NewService\<rparr>,
      Initialize = Application_Initialize f,
      GetLogger = (\<lambda>app. ()),
      Run = Application_Run f\<rparr>"

definition no_faults :: faults where
  "no_faults = \<lparr>logger_fault = None, wiring_fault = None, runtime_fault = None, shutdown_fault = None\<rparr>"

section \<open>The entrypoint\<close>

text \<open>
  The three package variables the build sets (\<^verbatim>\<open>version\<close>, \<^verbatim>\<open>commit\<close>, \<^verbatim>\<open>date\<close>) are a
  parameter of \<^verbatim>\<open>main\<close>; \<open>dev_build\<close> holds the values in the source.
\<close>

record build =
  version :: string
  commit :: string
  date :: string

definition dev_build :: build where
  "dev_build = \<lparr>version = ''dev'', commit = ''none'', date = ''unknown''\<rparr>"

text \<open>\<^verbatim>\<open>fmt.Printf\<close>, with the \<^verbatim>\<open>%s\<close> verb already replaced by its argument.\<close>

definition fmt_Printf :: "string \<Rightarrow> proc \<Rightarrow> proc" where
  "fmt_Printf s p = emit (Stdout s) p"

text \<open>The condition of the first \<^verbatim>\<open>if\<close> of \<^verbatim>\<open>main\<close>, on \<^verbatim>\<open>os.Args\<close>.\<close>

definition version_flag :: "string list \<Rightarrow> bool" where
  "version_flag args = (length args > 1 \<and> (args ! 1 = ''--version'' \<or> args ! 1 = ''-v''))"

text \<open>
  \<^verbatim>\<open>main\<close>: the result is the process at its end and its exit status. \<^verbatim>\<open>os.Exit(0)\<close> and
  the return from \<^verbatim>\<open>main\<close> give status 0; after \<^verbatim>\<open>Fatal\<close> nothing more of \<^verbatim>\<open>main\<close> runs.
\<close>

definition main :: "build \<Rightarrow> ('app, 'logger) application_pkg \<Rightarrow> proc \<Rightarrow> proc \<times> nat" where
  "main b pkg p =
     (if version_flag (Args p) then
        (let p1 = fmt_Printf (''golang-rest-api-template '' @ version b @ [CHR 0x0A]) p;
             p2 = fmt_Printf (''  commit: '' @ commit b @ [CHR 0x0A]) p1;
             p3 = fmt_Printf (''  built:  '' @ date b @ [CHR 0x0A]) p2
         in (p3, 0))
      else
        (let app = NewApplication pkg;
             (err, app1, p1) = Initialize pkg app p
         in case err of
              Some e \<Rightarrow>
                Logger_Fatal (GetLogger pkg app1) ''failed to initialize application''
                  [(''error'', Error e)] p1
            | None \<Rightarrow>
                (let p2 = Logger_Info (GetLogger pkg app1) ''starting application''
                            [(''version'', version b), (''commit'', commit b), (''built'', date b)] p1;
                     (err2, app2, p3) = Run pkg app1 p2
                 in case err2 of
                      Some e \<Rightarrow>
                        Logger_Fatal (GetLogger pkg app2) ''application failed''
                          [(''error'', Error e)] p3
                    | None \<Rightarrow> (p3, 0))))"

text \<open>The number of lines of a text: its newline bytes.\<close>

definition line_count :: "string \<Rightarrow> nat" where
  "line_count s = length (filter (\<lambda>c. c = CHR 0x0A) s)"

section \<open>Example processes\<close>

text \<open>
  A process with no \<^verbatim>\<open>.env\<close> file and an empty environment; the scenario of the spec
  (\<^verbatim>\<open>DB_HOST=dbhost\<close>, \<^verbatim>\<open>DB_PORT\<close> unset, \<^verbatim>\<open>REDIS_DB=abc\<close>); and a process with a \<^verbatim>\<open>.env\<close>
  file next to a non-empty environment.
\<close>

definition no_dotenv :: "error + environ" where
  "no_dotenv = Inl (ErrOther ''open .env: no such file or directory'')"

definition bare_proc :: proc where
  "bare_proc = \<lparr>Args = [''server''], Environ = Map.empty, DotEnv = no_dotenv, Trace = []\<rparr>"

definition scenario_proc :: proc where
  "scenario_proc =
     \<lparr>Args = [''server''],
      Environ = [''DB_HOST'' \<mapsto> ''dbhost'', ''REDIS_DB'' \<mapsto> ''abc''],
      DotEnv = no_dotenv, Trace = []\<rparr>"

definition dotenv_proc :: proc where
  "dotenv_proc =
     \<lparr>Args = [''server''],
      Environ = [''DB_HOST'' \<mapsto> ''dbhost'', ''REDIS_DB'' \<mapsto> ''-42''],
      DotEnv = Inr [''DB_HOST'' \<mapsto> ''filehost'', ''SERVER_PORT'' \<mapsto> ''9090''],
      Trace = []\<rparr>"

text \<open>
  Further processes: \<^verbatim>\<open>REDIS_DB\<close> set to a numeral beyond the range of \<^verbatim>\<open>int\<close>, to such a
  numeral followed by a letter, and to the empty string; a malformed \<^verbatim>\<open>.env\<close> file; the
  two version queries; and two ways for \<^verbatim>\<open>Initialize\<close> to fail.
\<close>

definition overflow_proc :: proc where
  "overflow_proc =
     \<lparr>Args = [''server''], Environ = [''REDIS_DB'' \<mapsto> ''99999999999999999999''],
      DotEnv = no_dotenv, Trace = []\<rparr>"

definition junk_after_overflow_proc :: proc where
  "junk_after_overflow_proc =
     \<lparr>Args = [''server''], Environ = [''REDIS_DB'' \<mapsto> ''99999999999999999999x''],
      DotEnv = no_dotenv, Trace = []\<rparr>"

definition empty_values_proc :: proc where
  "empty_values_proc =
     \<lparr>Args = [''server''], Environ = [''DB_HOST'' \<mapsto> [], ''REDIS_DB'' \<mapsto> []],
      DotEnv = Inr [''DB_HOST'' \<mapsto> ''filehost''], Trace = []\<rparr>"

definition malformed_dotenv_proc :: proc where
  "malformed_dotenv_proc =
     \<lparr>Args = [''server''], Environ = [''DB_HOST'' \<mapsto> ''dbhost''],
      DotEnv = Inl (ErrOther ''unexpected character in variable name''), Trace = []\<rparr>"

definition version_proc :: proc where
  "version_proc = \<lparr>Args = [''server'', ''--version''],
     Environ = [''DB_HOST'' \<mapsto> ''dbhost''], DotEnv = no_dotenv, Trace = []\<rparr>"

definition short_version_proc :: proc where
  "short_version_proc = \<lparr>Args = [''server'', ''-v'', ''extra''],
     Environ = Map.empty, DotEnv = no_dotenv, Trace = []\<rparr>"

definition logger_broken :: faults where
  "logger_broken = no_faults\<lparr>logger_fault := Some (ErrOther ''logger: cannot open sink'')\<rparr>"

definition wiring_broken :: faults where
  "wiring_broken = no_faults\<lparr>wiring_fault := Some (ErrOther ''database: connection refused'')\<rparr>"

section \<open>Bytes and digits\<close>

lemma of_char_lt_256: "(of_char c :: nat) < 256"
  by (cases c) simp

lemma byte_sub_ge: "b \<le> a \<Longrightarrow> a < 256 \<Longrightarrow> byte_sub a b = a - b"
proof -
  assume le: "b \<le> a" and lt: "a < 256"
  from le have "a + 256 - b = 256 + (a - b)" by simp
  then have "byte_sub a b = (256 + (a - b)) mod 256" by (simp add: byte_sub_def)
  also have "\<dots> = a - b" using lt by simp
  finally show ?thesis .
qed

lemma byte_sub_48: "a < 256 \<Longrightarrow> byte_sub a 48 = (if 48 \<le> a then a - 48 else a + 208)"
  by (simp add: byte_sub_ge) (simp add: byte_sub_def)

lemma byte_sub_digit: "byte_sub (of_char c) 48 > 9 \<longleftrightarrow> \<not> is_digit c"
  using of_char_lt_256 [of c] by (auto simp: byte_sub_48 is_digit_def)

lemma byte_sub_digit_val: "is_digit c \<Longrightarrow> byte_sub (of_char c) 48 = digit_val c"
  using of_char_lt_256 [of c] by (auto simp: byte_sub_48 is_digit_def digit_val_def)

lemma digit_val_le: "is_digit c \<Longrightarrow> digit_val c \<le> 9"
  by (auto simp: is_digit_def digit_val_def)

lemma digit_of_digit: "is_digit c \<Longrightarrow> digit_of (of_char c) = Some (digit_val c)"
  by (simp add: digit_of_def byte_sub_digit_val) (simp add: is_digit_def)

lemma byte_sub_97: "97 \<le> a \<Longrightarrow> a \<le> 122 \<Longrightarrow> (byte_sub a 97 + 10) mod 256 = a - 87"
  by (simp add: byte_sub_ge)

lemma digit_of_other:
  "\<not> is_digit c \<Longrightarrow> digit_of (of_char c) = None \<or> (\<exists>d. digit_of (of_char c) = Some d \<and> d \<ge> 10)"
  by (auto simp: digit_of_def is_digit_def byte_sub_97)

lemma dec_from_ge: "n \<le> dec_from n s"
proof (induction s arbitrary: n)
  case Nil
  show ?case by simp
next
  case (Cons c cs)
  have "n \<le> n * 10 + digit_val c" by simp
  also have "\<dots> \<le> dec_from (n * 10 + digit_val c) cs" by (rule Cons.IH)
  finally show ?case by simp
qed

lemma dec_from_bound:
  "list_all is_digit s \<Longrightarrow> dec_from n s < (n + 1) * 10 ^ length s"
proof (induction s arbitrary: n)
  case Nil
  show ?case by simp
next
  case (Cons c cs)
  then have d: "digit_val c \<le> 9" and r: "list_all is_digit cs"
    by (simp_all add: digit_val_le)
  have "dec_from (n * 10 + digit_val c) cs < (n * 10 + digit_val c + 1) * 10 ^ length cs"
    by (rule Cons.IH [OF r])
  also have "\<dots> \<le> ((n + 1) * 10) * 10 ^ length cs"
    using d by (intro mult_right_mono) auto
  finally show ?case by (simp add: algebra_simps)
qed

lemma Atoi_loop_eq:
  "Atoi_loop s (int n) = (if list_all is_digit s then Some (int (dec_from n s)) else None)"
proof (induction s arbitrary: n)
  case Nil
  show ?case by simp
next
  case (Cons c cs)
  show ?case
  proof (cases "is_digit c")
    case True
    then have "Atoi_loop (c # cs) (int n) = Atoi_loop cs (int (n * 10 + digit_val c))"
      using byte_sub_digit [of c] by (simp add: byte_sub_digit_val)
    then show ?thesis using True Cons.IH [of "n * 10 + digit_val c"] by simp
  next
    case False
    then show ?thesis using byte_sub_digit [of c] by simp
  qed
qed



section \<open>\<^verbatim>\<open>Atoi\<close> computes the numeral\<close>

text \<open>
  One step of the \<^verbatim>\<open>uint64\<close> accumulator: the two checks of the source fire exactly
  when the next value leaves the range, and otherwise nothing wraps.
\<close>

lemma uint64_step:
  assumes d: "d \<le> 9"
  shows "(n \<ge> maxUint64 div 10 + 1 \<or>
          ((n * 10) mod 2 ^ 64 + d) mod 2 ^ 64 < (n * 10) mod 2 ^ 64 \<or>
          ((n * 10) mod 2 ^ 64 + d) mod 2 ^ 64 > maxUint64)
         \<longleftrightarrow> n * 10 + d > maxUint64"
    and "\<not> n * 10 + d > maxUint64 \<Longrightarrow> ((n * 10) mod 2 ^ 64 + d) mod 2 ^ 64 = n * 10 + d"
proof -
  have M: "maxUint64 = 18446744073709551615" by (simp add: maxUint64_def)
  have P: "(2::nat) ^ 64 = 18446744073709551616" by simp
  show "(n \<ge> maxUint64 div 10 + 1 \<or>
          ((n * 10) mod 2 ^ 64 + d) mod 2 ^ 64 < (n * 10) mod 2 ^ 64 \<or>
          ((n * 10) mod 2 ^ 64 + d) mod 2 ^ 64 > maxUint64)
         \<longleftrightarrow> n * 10 + d > maxUint64"
  proof (cases "n \<ge> 1844674407370955162")
    case True
    then show ?thesis unfolding M by simp
  next
    case False
    then have small: "n * 10 < 18446744073709551616" by simp
    then have n': "(n * 10) mod 2 ^ 64 = n * 10" unfolding P by simp
    show ?thesis
    proof (cases "n * 10 + d < 18446744073709551616")
      case True
      then have "(n * 10 + d) mod 2 ^ 64 = n * 10 + d" unfolding P by simp
      then show ?thesis using True False unfolding n' M by simp
    next
      case False
      then have ge: "18446744073709551616 \<le> n * 10 + d" by simp
      have "(n * 10 + d) mod 18446744073709551616 = (n * 10 + d - 18446744073709551616) mod 18446744073709551616"
        using ge by (rule le_mod_geq)
      also have "\<dots> = n * 10 + d - 18446744073709551616"
        using small d by simp
      finally have "(n * 10 + d) mod 2 ^ 64 < n * 10"
        unfolding P using d ge by simp
      then show ?thesis using ge unfolding n' M by simp
    qed
  qed
  show "\<not> n * 10 + d > maxUint64 \<Longrightarrow> ((n * 10) mod 2 ^ 64 + d) mod 2 ^ 64 = n * 10 + d"
  proof -
    assume "\<not> n * 10 + d > maxUint64"
    then have le: "n * 10 + d < 18446744073709551616" unfolding M by simp
    then have "n * 10 < 18446744073709551616" by simp
    then have "(n * 10) mod 2 ^ 64 = n * 10" unfolding P by simp
    then show ?thesis using le unfolding P by simp
  qed
qed

lemma ParseUint_loop_eq:
  "n \<le> maxUint64 \<Longrightarrow>
   ParseUint_loop s n =
     (if dec_from n (takeWhile is_digit s) > maxUint64 then (maxUint64, Some ErrRange)
      else if takeWhile is_digit s = s then (dec_from n s, None)
      else (0, Some ErrSyntax))"
proof (induction s arbitrary: n)
  case Nil
  then show ?case by simp
next
  case (Cons c cs)
  show ?case
  proof (cases "is_digit c")
    case True
    let ?d = "digit_val c"
    have d: "?d \<le> 9" using True by (rule digit_val_le)
    have dof: "digit_of (of_char c) = Some ?d" using True by (rule digit_of_digit)
    show ?thesis
    proof (cases "n * 10 + ?d > maxUint64")
      case over: True
      have "n * 10 + ?d \<le> dec_from (n * 10 + ?d) (takeWhile is_digit cs)"
        by (rule dec_from_ge)
      then have big: "dec_from n (takeWhile is_digit (c # cs)) > maxUint64"
        using over True by simp
      have "ParseUint_loop (c # cs) n = (maxUint64, Some ErrRange)"
        using uint64_step(1) [OF d, of n] over d by (auto simp: dof Let_def)
      then show ?thesis using big by simp
    next
      case fits: False
      then have le: "n * 10 + ?d \<le> maxUint64" by simp
      have n1: "((n * 10) mod 2 ^ 64 + ?d) mod 2 ^ 64 = n * 10 + ?d"
        using uint64_step(2) [OF d fits] .
      have "ParseUint_loop (c # cs) n = ParseUint_loop cs (n * 10 + ?d)"
        using uint64_step(1) [OF d, of n] fits d n1 by (auto simp: dof Let_def)
      then show ?thesis using Cons.IH [OF le] True by simp
    qed
  next
    case False
    have "ParseUint_loop (c # cs) n = (0, Some ErrSyntax)"
      using digit_of_other [OF False] by auto
    then show ?thesis using False Cons.prems by simp
  qed
qed


lemma ParseUint_eq:
  "ParseUint s =
     (if s = [] then (0, Some ErrSyntax)
      else if dec_val (takeWhile is_digit s) > maxUint64 then (maxUint64, Some ErrRange)
      else if takeWhile is_digit s = s then (dec_val s, None)
      else (0, Some ErrSyntax))"
  by (simp add: ParseUint_def dec_val_def ParseUint_loop_eq)

lemma int64_of_uint64_small: "un < 2 ^ 63 \<Longrightarrow> int64_of_uint64 un = int un"
  by (simp add: int64_of_uint64_def)

lemma neg_int64_of_nat: "un \<le> 2 ^ 63 \<Longrightarrow> neg_int64 (int64_of_uint64 un) = - int un"
  by (auto simp: neg_int64_def int64_of_uint64_def)

lemma ParseInt_Nil: "ParseInt [] = Atoi_spec []"
  by (simp add: ParseInt_def Atoi_spec_def unsigned_def)

lemma ParseInt_eq: "ParseInt v = Atoi_spec v"
proof (cases v)
  case Nil
  then show ?thesis by (simp add: ParseInt_Nil)
next
  case (Cons c0 s1)
  let ?u = "unsigned v"
  let ?D = "dec_val (takeWhile is_digit ?u)"
  have M: "maxUint64 = 18446744073709551615" by (simp add: maxUint64_def)
  have u: "(if c0 = CHR ''+'' \<or> c0 = CHR ''-'' then s1 else v) = ?u"
    using Cons by (simp add: unsigned_def)
  have neg: "(c0 = CHR ''-'') = negative v"
    using Cons by (simp add: negative_def)
  have PI: "ParseInt v =
      (case ParseUint ?u of (un, err) \<Rightarrow>
         if err \<noteq> None \<and> err \<noteq> Some ErrRange then (0, err)
         else if \<not> negative v \<and> un \<ge> 2 ^ 63 then (int64_of_uint64 (2 ^ 63 - 1), Some ErrRange)
         else if negative v \<and> un > 2 ^ 63 then (neg_int64 (int64_of_uint64 (2 ^ 63)), Some ErrRange)
         else (if negative v then neg_int64 (int64_of_uint64 un) else int64_of_uint64 un, None))"
    unfolding Cons by (simp add: ParseInt_def unsigned_def negative_def intSize_def Let_def split_def)
  consider (empty) "?u = []"
    | (over) "?u \<noteq> []" "?D > maxUint64"
    | (junk) "?u \<noteq> []" "?D \<le> maxUint64" "takeWhile is_digit ?u \<noteq> ?u"
    | (num) "?u \<noteq> []" "?D \<le> maxUint64" "takeWhile is_digit ?u = ?u"
    by fastforce
  then show ?thesis
  proof cases
    case empty
    then show ?thesis by (simp add: PI ParseUint_eq Atoi_spec_def)
  next
    case over
    then have "ParseUint ?u = (maxUint64, Some ErrRange)" by (simp add: ParseUint_eq)
    moreover have "\<not> ?D < 2 ^ 64" "?D > 2 ^ 63" "?D \<ge> 2 ^ 63" using over(2) unfolding M by simp_all
    ultimately show ?thesis using over(1)
      by (simp add: PI Atoi_spec_def int64_of_uint64_def neg_int64_def M)
  next
    case junk
    then have "ParseUint ?u = (0, Some ErrSyntax)" by (simp add: ParseUint_eq)
    moreover have "?D < 2 ^ 64" using junk(2) unfolding M by simp
    ultimately show ?thesis using junk
      by (simp add: PI Atoi_spec_def)
  next
    case num
    then have pu: "ParseUint ?u = (dec_val ?u, None)"
      by (simp add: ParseUint_eq del: takeWhile_eq_all_conv)
    have D: "?D = dec_val ?u" using num(3) by (simp del: takeWhile_eq_all_conv)
    have lt: "dec_val ?u < 2 ^ 64" using num(2) unfolding D M by simp
    show ?thesis
    proof (cases "negative v")
      case True
      show ?thesis
      proof (cases "dec_val ?u > 2 ^ 63")
        case big: True
        then show ?thesis using True num(1) num(3)
          by (simp add: PI pu Atoi_spec_def int64_of_uint64_def neg_int64_def Let_def del: takeWhile_eq_all_conv)
      next
        case False
        then have "dec_val ?u \<le> 2 ^ 63" by simp
        then have "neg_int64 (int64_of_uint64 (dec_val ?u)) = - int (dec_val ?u)"
          by (rule neg_int64_of_nat)
        then show ?thesis using True False num(1) num(3)
          by (simp add: PI pu Atoi_spec_def Let_def del: takeWhile_eq_all_conv)
      qed
    next
      case False
      show ?thesis
      proof (cases "dec_val ?u \<ge> 2 ^ 63")
        case big: True
        then show ?thesis using False num(1) num(3) lt
          by (simp add: PI pu Atoi_spec_def int64_of_uint64_def neg_int64_def Let_def del: takeWhile_eq_all_conv)
      next
        case small: False
        then have "int64_of_uint64 (dec_val ?u) = int (dec_val ?u)"
          by (simp add: int64_of_uint64_small)
        then show ?thesis using False small num(1) num(3) lt
          by (simp add: PI pu Atoi_spec_def Let_def del: takeWhile_eq_all_conv)
      qed
    qed
  qed
qed

lemma list_all_takeWhile: "list_all P (takeWhile P xs)"
  by (induction xs) auto

lemma dec_val_short:
  assumes "list_all is_digit s" "length s \<le> 18"
  shows "dec_val s < 10 ^ 18"
proof -
  have "dec_val s < (0 + 1) * 10 ^ length s"
    unfolding dec_val_def using assms(1) by (rule dec_from_bound)
  also have "\<dots> = 10 ^ length s" by simp
  also have "\<dots> \<le> 10 ^ 18" using assms(2) by (intro power_increasing) simp_all
  finally show ?thesis .
qed

lemma dec_val_19:
  assumes "list_all is_digit s" "length s \<le> 19"
  shows "dec_val s < 2 ^ 64"
proof -
  have "dec_val s < (0 + 1) * 10 ^ length s"
    unfolding dec_val_def using assms(1) by (rule dec_from_bound)
  also have "\<dots> = 10 ^ length s" by simp
  also have "\<dots> \<le> 10 ^ 19" using assms(2) by (intro power_increasing) simp_all
  also have "\<dots> < (2::nat) ^ 64" by simp
  finally show ?thesis .
qed

lemma Atoi_eq: "Atoi v = Atoi_spec v"
proof (cases "0 < length v \<and> length v < 19")
  case False
  then have "Atoi v = ParseInt v" by (auto simp: Atoi_def Let_def)
  then show ?thesis by (simp add: ParseInt_eq)
next
  case True
  then obtain c0 s1 where v: "v = c0 # s1" by (cases v) auto
  let ?u = "unsigned v"
  let ?ds = "takeWhile is_digit ?u"
  have u: "(if c0 = CHR ''-'' \<or> c0 = CHR ''+'' then s1 else v) = ?u"
    using v by (auto simp: unsigned_def)
  have neg: "(c0 = CHR ''-'') = negative v"
    using v by (simp add: negative_def)
  have len: "length ?u \<le> 18" using True v by (auto simp: unsigned_def)
  have fast: "Atoi v =
      (if (c0 = CHR ''-'' \<or> c0 = CHR ''+'') \<and> length ?u < 1 then (0, Some ErrSyntax)
       else case Atoi_loop ?u 0 of
              None \<Rightarrow> (0, Some ErrSyntax)
            | Some n \<Rightarrow> (if negative v then - n else n, None))"
    using True unfolding v
    by (simp add: Atoi_def unsigned_def negative_def intSize_def Let_def split: option.splits)
  have loop: "Atoi_loop ?u 0 = (if list_all is_digit ?u then Some (int (dec_val ?u)) else None)"
    using Atoi_loop_eq [of ?u 0] by (simp add: dec_val_def)
  have "length ?ds \<le> 18" using len length_takeWhile_le [of is_digit ?u] by simp
  then have "dec_val ?ds < 10 ^ 18" using list_all_takeWhile dec_val_short by blast
  then have small: "dec_val ?ds < 2 ^ 64" "\<not> dec_val ?ds > 2 ^ 63" "\<not> dec_val ?ds \<ge> 2 ^ 63"
    by simp_all
  show ?thesis
  proof (cases "?u = []")
    case True
    then have "c0 = CHR ''-'' \<or> c0 = CHR ''+''"
      using v by (auto simp: unsigned_def split: if_splits)
    then show ?thesis using True by (simp add: fast Atoi_spec_def)
  next
    case nonempty: False
    show ?thesis
    proof (cases "list_all is_digit ?u")
      case True
      then have "?ds = ?u" by (simp add: takeWhile_eq_all_conv list_all_iff)
      then show ?thesis using True nonempty small
        by (simp add: fast loop Atoi_spec_def del: takeWhile_eq_all_conv)
    next
      case False
      then have "?ds \<noteq> ?u" by (simp add: takeWhile_eq_all_conv list_all_iff)
      then show ?thesis using False nonempty small
        by (simp add: fast loop Atoi_spec_def del: takeWhile_eq_all_conv)
    qed
  qed
qed

section \<open>What \<^verbatim>\<open>LoadConfig\<close> returns\<close>

lemma getEnv_eq: "getEnv key d p = (resolve (Environ p) key d, emit (EnvLookup key) p)"
  by (simp add: getEnv_def os_LookupEnv_def resolve_def split: option.splits)

lemma godotenv_Load_eq:
  "godotenv_Load p =
     (case DotEnv p of Inl e \<Rightarrow> Some e | Inr m \<Rightarrow> None,
      emit DotEnvRead (p\<lparr>Environ := effective_env p\<rparr>))"
  by (simp add: godotenv_Load_def effective_env_def split: sum.splits)

lemma Environ_emit [simp]: "Environ (emit e p) = Environ p"
  by (simp add: emit_def)

lemma DotEnv_emit [simp]: "DotEnv (emit e p) = DotEnv p"
  by (simp add: emit_def)

lemma Args_emit [simp]: "Args (emit e p) = Args p"
  by (simp add: emit_def)

lemma Trace_emit [simp]: "Trace (emit e p) = Trace p @ [e]"
  by (simp add: emit_def)

lemma LoadConfig_eq:
  "LoadConfig cnf p =
     (None,
      cnf\<lparr>dbEnv := documented_DBConfig (effective_env p),
          redisEnv := documented_RedisConfig (effective_env p),
          srvConfg := documented_ServerConf (effective_env p),
          jaegerConfig := documented_JaegerConfig (effective_env p)\<rparr>,
      p\<lparr>Environ := effective_env p, Trace := Trace p @ LoadConfig_events\<rparr>)"
  by (simp add: LoadConfig_def godotenv_Load_eq getEnv_eq Let_def split_def Atoi_eq
      documented_DBConfig_def documented_RedisConfig_def documented_ServerConf_def
      documented_JaegerConfig_def LoadConfig_events_def emit_def)

lemma Atoi_spec_numeric:
  assumes "numeric v" "in_int_range (int_val v)"
  shows "Atoi_spec v = (int_val v, None)"
proof -
  let ?u = "unsigned v"
  from assms(1) have ne: "?u \<noteq> []" and tw: "takeWhile is_digit ?u = ?u"
    by (simp_all add: numeric_def list_all_iff)
  show ?thesis
  proof (cases "negative v")
    case True
    with assms(2) have "\<not> dec_val ?u > 2 ^ 63"
      by (simp add: in_int_range_def int_val_def)
    with True ne show ?thesis
      by (simp add: Atoi_spec_def Let_def tw int_val_def del: takeWhile_eq_all_conv)
  next
    case False
    with assms(2) have "\<not> dec_val ?u \<ge> 2 ^ 63"
      by (simp add: in_int_range_def int_val_def)
    with False ne show ?thesis
      by (simp add: Atoi_spec_def Let_def tw int_val_def del: takeWhile_eq_all_conv)
  qed
qed

lemma Atoi_spec_syntax:
  assumes "\<not> numeric v" "dec_val (takeWhile is_digit (unsigned v)) < 2 ^ 64"
  shows "Atoi_spec v = (0, Some ErrSyntax)"
proof (cases "unsigned v = []")
  case True
  then show ?thesis by (simp add: Atoi_spec_def)
next
  case False
  with assms(1) have "takeWhile is_digit (unsigned v) \<noteq> unsigned v"
    by (simp add: numeric_def list_all_iff)
  with False assms(2) show ?thesis
    by (simp add: Atoi_spec_def Let_def del: takeWhile_eq_all_conv)
qed

lemma Atoi_spec_in_range: "in_int_range (fst (Atoi_spec v))"
  by (simp add: Atoi_spec_def Let_def in_int_range_def)

lemma Atoi_spec_zero: "Atoi_spec ''0'' = (0, None)"
  by (simp add: Atoi_spec_def unsigned_def negative_def is_digit_def dec_val_def digit_val_def)

lemma resolve_None: "env k = None \<Longrightarrow> resolve env k d = d"
  by (simp add: resolve_def)

lemma resolve_Some: "env k = Some v \<Longrightarrow> resolve env k d = v"
  by (simp add: resolve_def)

lemma resolves_to_resolve: "resolves_to env k d (resolve env k d)"
  by (simp add: resolves_to_def resolve_def)

lemma effective_env_set: "Environ p k = Some v \<Longrightarrow> effective_env p k = Some v"
  by (simp add: effective_env_def map_add_def split: sum.splits)

lemma effective_env_unset:
  "Environ p k = None \<Longrightarrow> (case DotEnv p of Inl e \<Rightarrow> True | Inr m \<Rightarrow> m k = None) \<Longrightarrow>
   effective_env p k = None"
  by (simp add: effective_env_def map_add_def split: sum.splits)

lemma effective_env_idem:
  "effective_env (p\<lparr>Environ := effective_env p, Trace := t\<rparr>) = effective_env p"
  by (auto simp: effective_env_def map_add_def split: sum.splits option.splits)

section \<open>Evaluating \<^verbatim>\<open>LoadConfig\<close> and \<^verbatim>\<open>main\<close>\<close>

lemma LoadConfig_service:
  "fst (snd (LoadConfig cnf p)) =
     cnf\<lparr>dbEnv := documented_DBConfig (effective_env p),
         redisEnv := documented_RedisConfig (effective_env p),
         srvConfg := documented_ServerConf (effective_env p),
         jaegerConfig := documented_JaegerConfig (effective_env p)\<rparr>"
  by (simp add: LoadConfig_eq)

lemma LoadConfig_DB:
  "DB (redisEnv (fst (snd (LoadConfig cnf p)))) =
     fst (Atoi_spec (resolve (effective_env p) ''REDIS_DB'' ''0''))"
  by (simp add: LoadConfig_service documented_RedisConfig_def)

lemma dec_val_20_nines: "dec_val ''99999999999999999999'' = 99999999999999999999"
  by (simp add: dec_val_def digit_val_def)

lemma takeWhile_20_nines: "takeWhile is_digit ''99999999999999999999'' = ''99999999999999999999''"
  by (simp add: is_digit_def)

lemma takeWhile_20_nines_x: "takeWhile is_digit ''99999999999999999999x'' = ''99999999999999999999''"
  by (simp add: is_digit_def)

lemma Atoi_spec_20_nines: "Atoi_spec ''99999999999999999999'' = (9223372036854775807, Some ErrRange)"
  unfolding Atoi_spec_def Let_def
  by (simp add: unsigned_def negative_def takeWhile_20_nines dec_val_20_nines
      del: takeWhile.simps takeWhile_eq_all_conv)

lemma Atoi_spec_20_nines_x: "Atoi_spec ''99999999999999999999x'' = (9223372036854775807, Some ErrRange)"
  unfolding Atoi_spec_def Let_def
  by (simp add: unsigned_def negative_def takeWhile_20_nines_x dec_val_20_nines
      del: takeWhile.simps takeWhile_eq_all_conv)

lemma version_flag_Cons2:
  "version_flag (prog # arg1 # rest) = (arg1 = ''--version'' \<or> arg1 = ''-v'')"
  by (simp add: version_flag_def)

lemma version_flag_short: "\<not> version_flag []" "\<not> version_flag [prog]"
  by (simp_all add: version_flag_def)

lemma main_version:
  "version_flag (Args p) \<Longrightarrow>
   main b pkg p =
     (p\<lparr>Trace := Trace p @
          [Stdout (''golang-rest-api-template '' @ version b @ [CHR 0x0A]),
           Stdout (''  commit: '' @ commit b @ [CHR 0x0A]),
           Stdout (''  built:  '' @ date b @ [CHR 0x0A])]\<rparr>, 0)"
  by (simp add: main_def fmt_Printf_def emit_def Let_def)

lemma main_bootstrap:
  "\<not> version_flag (Args p) \<Longrightarrow>
   main b pkg p =
     (case Initialize pkg (NewApplication pkg) p of
        (Some e, app1, p1) \<Rightarrow>
          Logger_Fatal (GetLogger pkg app1) ''failed to initialize application''
            [(''error'', Error e)] p1
      | (None, app1, p1) \<Rightarrow>
          (case Run pkg app1
                  (Logger_Info (GetLogger pkg app1) ''starting application''
                     [(''version'', version b), (''commit'', commit b), (''built'', date b)] p1) of
             (Some e, app2, p3) \<Rightarrow>
               Logger_Fatal (GetLogger pkg app2) ''application failed'' [(''error'', Error e)] p3
           | (None, app2, p3) \<Rightarrow> (p3, 0)))"
  by (simp add: main_def Let_def split: prod.splits option.splits)

lemma filter_newline_free: "CHR 0x0A \<notin> set s \<Longrightarrow> filter (\<lambda>c. c = CHR 0x0A) s = []"
  by (induction s) auto

lemma Initialize_application_ok:
  "Initialize (application no_faults) (NewApplication (application no_faults)) p =
     (None,
      \<lparr>state = Initialized, config = fst (snd (LoadConfig NewService p))\<rparr>,
      p\<lparr>Environ := effective_env p, Trace := Trace p @ LoadConfig_events\<rparr>)"
  by (simp add: application_def Application_Initialize_def no_faults_def Init_def LoadConfig_eq)

lemma Run_application_ok:
  "Run (application no_faults) \<lparr>state = Initialized, config = c\<rparr> q =
     (None, \<lparr>state = Stopped, config = c\<rparr>,
      q\<lparr>Trace := Trace q @ [SubsystemStart ''server'', SubsystemStop ''server'']\<rparr>)"
  by (simp add: application_def Application_Run_def no_faults_def Let_def emit_def)

lemma main_clean_run:
  "\<not> version_flag (Args p) \<Longrightarrow>
   main b (application no_faults) p =
     (p\<lparr>Environ := effective_env p,
        Trace := Trace p @ LoadConfig_events @
          [LogLine InfoLevel ''starting application''
             [(''version'', version b), (''commit'', commit b), (''built'', date b)],
           SubsystemStart ''server'', SubsystemStop ''server'']\<rparr>, 0)"
  by (simp add: main_bootstrap Initialize_application_ok Run_application_ok Logger_Info_def emit_def)

lemma effective_env_dotenv_proc:
  "effective_env dotenv_proc =
     [''DB_HOST'' \<mapsto> ''filehost'', ''SERVER_PORT'' \<mapsto> ''9090''] ++
     [''DB_HOST'' \<mapsto> ''dbhost'', ''REDIS_DB'' \<mapsto> ''-42'']"
  by (simp add: effective_env_def dotenv_proc_def)

section \<open>The claims\<close>

text \<open>
  C1. For every recognized environment variable: when it is unset in the environment
  that the lookups read, \<^verbatim>\<open>LoadConfig\<close> gives the field the documented default
  (\<^verbatim>\<open>DB_PORT\<close> \<open>3306\<close>, \<^verbatim>\<open>SERVER_PORT\<close> \<open>8080\<close>, \<open>DB\<close> the number 0, ...); when it is set, the
  field is that value: the same string for the twelve string fields, and for
  \<^verbatim>\<open>REDIS_DB\<close> the integer that a decimal numeral within the range of \<^verbatim>\<open>int\<close> denotes. The
  environment read is the process environment after the optional \<^verbatim>\<open>.env\<close> file was
  loaded: a variable set in the process keeps its value, and a variable unset in the
  process and not supplied by the file is unset.
\<close>

theorem LoadConfig_resolves_variables:
  assumes "LoadConfig cnf p = (err, cnf', p')"
  shows "resolves_to (Environ p') ''DB_HOST'' ''localhost'' (DBConfig.Host (dbEnv cnf')) \<and>
         resolves_to (Environ p') ''DB_PORT'' ''3306'' (DBConfig.Port (dbEnv cnf')) \<and>
         resolves_to (Environ p') ''DB_USER'' ''user'' (User (dbEnv cnf')) \<and>
         resolves_to (Environ p') ''DB_PASSWORD'' ''password'' (DBConfig.Password (dbEnv cnf')) \<and>
         resolves_to (Environ p') ''DB_NAME'' ''mydatabase'' (DBConfig.Name (dbEnv cnf')) \<and>
         resolves_to (Environ p') ''REDIS_HOST'' ''localhost'' (RedisConfig.Host (redisEnv cnf')) \<and>
         resolves_to (Environ p') ''REDIS_PORT'' ''6379'' (RedisConfig.Port (redisEnv cnf')) \<and>
         resolves_to (Environ p') ''REDIS_PASSWORD'' [] (RedisConfig.Password (redisEnv cnf')) \<and>
         resolves_to (Environ p') ''SERVER_ADDR'' [] (Address (srvConfg cnf')) \<and>
         resolves_to (Environ p') ''SERVER_PORT'' ''8080'' (ServerConf.Port (srvConfg cnf')) \<and>
         resolves_to (Environ p') ''JAEGER_AGENT_HOST'' ''localhost'' (AgentHost (jaegerConfig cnf')) \<and>
         resolves_to (Environ p') ''JAEGER_AGENT_PORT'' ''6831'' (AgentPort (jaegerConfig cnf')) \<and>
         (Environ p' ''REDIS_DB'' = None \<longrightarrow> DB (redisEnv cnf') = 0) \<and>
         (\<forall>v. Environ p' ''REDIS_DB'' = Some v \<and> numeric v \<and> in_int_range (int_val v) \<longrightarrow>
              DB (redisEnv cnf') = int_val v) \<and>
         (\<forall>k v. Environ p k = Some v \<longrightarrow> Environ p' k = Some v) \<and>
         (\<forall>k. Environ p k = None \<and> (case DotEnv p of Inl e \<Rightarrow> True | Inr m \<Rightarrow> m k = None) \<longrightarrow>
              Environ p' k = None)"
proof -
  let ?E = "effective_env p"
  from assms have cnf': "cnf' = cnf\<lparr>dbEnv := documented_DBConfig ?E,
        redisEnv := documented_RedisConfig ?E, srvConfg := documented_ServerConf ?E,
        jaegerConfig := documented_JaegerConfig ?E\<rparr>"
    and p': "Environ p' = ?E"
    by (auto simp: LoadConfig_eq)
  have strings: "resolves_to ?E ''DB_HOST'' ''localhost'' (DBConfig.Host (dbEnv cnf')) \<and>
         resolves_to ?E ''DB_PORT'' ''3306'' (DBConfig.Port (dbEnv cnf')) \<and>
         resolves_to ?E ''DB_USER'' ''user'' (User (dbEnv cnf')) \<and>
         resolves_to ?E ''DB_PASSWORD'' ''password'' (DBConfig.Password (dbEnv cnf')) \<and>
         resolves_to ?E ''DB_NAME'' ''mydatabase'' (DBConfig.Name (dbEnv cnf')) \<and>
         resolves_to ?E ''REDIS_HOST'' ''localhost'' (RedisConfig.Host (redisEnv cnf')) \<and>
         resolves_to ?E ''REDIS_PORT'' ''6379'' (RedisConfig.Port (redisEnv cnf')) \<and>
         resolves_to ?E ''REDIS_PASSWORD'' [] (RedisConfig.Password (redisEnv cnf')) \<and>
         resolves_to ?E ''SERVER_ADDR'' [] (Address (srvConfg cnf')) \<and>
         resolves_to ?E ''SERVER_PORT'' ''8080'' (ServerConf.Port (srvConfg cnf')) \<and>
         resolves_to ?E ''JAEGER_AGENT_HOST'' ''localhost'' (AgentHost (jaegerConfig cnf')) \<and>
         resolves_to ?E ''JAEGER_AGENT_PORT'' ''6831'' (AgentPort (jaegerConfig cnf'))"
    unfolding cnf'
    by (simp add: documented_DBConfig_def documented_RedisConfig_def
        documented_ServerConf_def documented_JaegerConfig_def resolves_to_resolve)
  have db: "DB (redisEnv cnf') = fst (Atoi_spec (resolve ?E ''REDIS_DB'' ''0''))"
    unfolding cnf' by (simp add: documented_RedisConfig_def)
  have unset: "?E ''REDIS_DB'' = None \<longrightarrow> DB (redisEnv cnf') = 0"
    by (simp add: db resolve_None Atoi_spec_zero)
  have valid: "\<forall>v. ?E ''REDIS_DB'' = Some v \<and> numeric v \<and> in_int_range (int_val v) \<longrightarrow>
      DB (redisEnv cnf') = int_val v"
    by (simp add: db resolve_Some Atoi_spec_numeric)
  have kept: "\<forall>k v. Environ p k = Some v \<longrightarrow> ?E k = Some v"
    by (simp add: effective_env_set)
  have none: "\<forall>k. Environ p k = None \<and> (case DotEnv p of Inl e \<Rightarrow> True | Inr m \<Rightarrow> m k = None) \<longrightarrow>
      ?E k = None"
    by (simp add: effective_env_unset)
  from strings unset valid kept none show ?thesis
    unfolding p' by blast
qed

text \<open>
  An instance: \<^verbatim>\<open>DB_HOST\<close> set in the process and in the file, \<^verbatim>\<open>DB_PORT\<close> set nowhere,
  \<^verbatim>\<open>SERVER_PORT\<close> only in the file, \<^verbatim>\<open>REDIS_DB=-42\<close>; and the empty environment.
\<close>

theorem LoadConfig_resolves_variables_witness:
  "Environ dotenv_proc ''DB_HOST'' = Some ''dbhost'' \<and>
   Environ dotenv_proc ''DB_PORT'' = None \<and>
   Environ dotenv_proc ''SERVER_PORT'' = None \<and>
   numeric ''-42'' \<and> in_int_range (int_val ''-42'') \<and>
   DBConfig.Host (dbEnv (fst (snd (LoadConfig NewService dotenv_proc)))) = ''dbhost'' \<and>
   DBConfig.Port (dbEnv (fst (snd (LoadConfig NewService dotenv_proc)))) = ''3306'' \<and>
   ServerConf.Port (srvConfg (fst (snd (LoadConfig NewService dotenv_proc)))) = ''9090'' \<and>
   DB (redisEnv (fst (snd (LoadConfig NewService dotenv_proc)))) = - 42 \<and>
   DB (redisEnv (fst (snd (LoadConfig NewService bare_proc)))) = 0 \<and>
   ServerConf.Port (srvConfg (fst (snd (LoadConfig NewService bare_proc)))) = ''8080''"
proof -
  obtain err cnf' p' where L: "LoadConfig NewService dotenv_proc = (err, cnf', p')"
    by (cases "LoadConfig NewService dotenv_proc") auto
  obtain err0 cnf0 p0 where L0: "LoadConfig NewService bare_proc = (err0, cnf0, p0)"
    by (cases "LoadConfig NewService bare_proc") auto
  have num: "numeric ''-42''" "int_val ''-42'' = - 42"
    by (simp_all add: numeric_def unsigned_def is_digit_def int_val_def negative_def
        dec_val_def digit_val_def)
  have rng: "in_int_range (int_val ''-42'')"
    by (simp add: num in_int_range_def)
  have env: "Environ dotenv_proc ''DB_HOST'' = Some ''dbhost''"
    "Environ dotenv_proc ''DB_PORT'' = None" "Environ dotenv_proc ''SERVER_PORT'' = None"
    "Environ dotenv_proc ''REDIS_DB'' = Some ''-42''"
    by (simp_all add: dotenv_proc_def)
  have dfile: "DotEnv dotenv_proc = Inr [''DB_HOST'' \<mapsto> ''filehost'', ''SERVER_PORT'' \<mapsto> ''9090'']"
    by (simp add: dotenv_proc_def)
  have p': "Environ p' = effective_env dotenv_proc"
    using L by (auto simp: LoadConfig_eq)
  have port: "Environ p' ''SERVER_PORT'' = Some ''9090''"
    by (simp add: p' effective_env_dotenv_proc map_add_def)
  note C = LoadConfig_resolves_variables [OF L]
  from C env have a: "Environ p' ''DB_HOST'' = Some ''dbhost''"
    and d: "Environ p' ''REDIS_DB'' = Some ''-42''" by blast+
  from C env dfile have b: "Environ p' ''DB_PORT'' = None" by simp
  from C a have 1: "DBConfig.Host (dbEnv cnf') = ''dbhost''" by (simp add: resolves_to_def)
  from C b have 2: "DBConfig.Port (dbEnv cnf') = ''3306''" by (simp add: resolves_to_def)
  from C port have 3: "ServerConf.Port (srvConfg cnf') = ''9090''" by (simp add: resolves_to_def)
  from C d num(1) rng have 4: "DB (redisEnv cnf') = - 42" using num(2) by auto
  note C0 = LoadConfig_resolves_variables [OF L0]
  have env0: "Environ bare_proc = Map.empty" "DotEnv bare_proc = no_dotenv"
    by (simp_all add: bare_proc_def)
  from C0 have p0: "Environ p0 ''REDIS_DB'' = None" "Environ p0 ''SERVER_PORT'' = None"
    by (simp_all add: env0 no_dotenv_def)
  from C0 p0 have 5: "DB (redisEnv cnf0) = 0" by blast
  from C0 p0 have 6: "ServerConf.Port (srvConfg cnf0) = ''8080''" by (simp add: resolves_to_def)
  show ?thesis using env(1-3) num(1) rng 1 2 3 4 5 6 by (simp add: L L0)
qed

text \<open>
  C2. When the first command-line argument is \<^verbatim>\<open>--version\<close> or \<^verbatim>\<open>-v\<close>, \<^verbatim>\<open>main\<close> prints the
  three lines naming the version, the commit and the build date and exits with status
  0. Whatever the application package is, nothing of it runs: the process ends as it
  began but for the three writes to standard output, so no \<^verbatim>\<open>Initialize\<close>, no \<^verbatim>\<open>Run\<close>, no
  read of \<^verbatim>\<open>.env\<close> and no lookup in the environment takes place. Each write is one line
  when the build values hold no newline. Every other invocation runs the bootstrap:
  \<^verbatim>\<open>Initialize\<close> on a new application in the untouched process, then the log line and \<^verbatim>\<open>Run\<close>.
\<close>

theorem main_version_query:
  "version_flag (prog # arg1 # rest) = (arg1 = ''--version'' \<or> arg1 = ''-v'') \<and>
   \<not> version_flag [] \<and> \<not> version_flag [prog] \<and>
   (version_flag (Args p) \<longrightarrow>
      main b pkg p =
        (p\<lparr>Trace := Trace p @
             [Stdout (''golang-rest-api-template '' @ version b @ [CHR 0x0A]),
              Stdout (''  commit: '' @ commit b @ [CHR 0x0A]),
              Stdout (''  built:  '' @ date b @ [CHR 0x0A])]\<rparr>, 0)) \<and>
   (CHR 0x0A \<notin> set (version b) \<and> CHR 0x0A \<notin> set (commit b) \<and> CHR 0x0A \<notin> set (date b) \<longrightarrow>
      line_count (''golang-rest-api-template '' @ version b @ [CHR 0x0A]) = 1 \<and>
      line_count (''  commit: '' @ commit b @ [CHR 0x0A]) = 1 \<and>
      line_count (''  built:  '' @ date b @ [CHR 0x0A]) = 1) \<and>
   (\<not> version_flag (Args p) \<longrightarrow>
      main b pkg p =
        (case Initialize pkg (NewApplication pkg) p of
           (Some e, app1, p1) \<Rightarrow>
             Logger_Fatal (GetLogger pkg app1) ''failed to initialize application''
               [(''error'', Error e)] p1
         | (None, app1, p1) \<Rightarrow>
             (case Run pkg app1
                     (Logger_Info (GetLogger pkg app1) ''starting application''
                        [(''version'', version b), (''commit'', commit b), (''built'', date b)] p1) of
                (Some e, app2, p3) \<Rightarrow>
                  Logger_Fatal (GetLogger pkg app2) ''application failed'' [(''error'', Error e)] p3
              | (None, app2, p3) \<Rightarrow> (p3, 0))))"
proof -
  have lines: "CHR 0x0A \<notin> set (version b) \<and> CHR 0x0A \<notin> set (commit b) \<and> CHR 0x0A \<notin> set (date b) \<longrightarrow>
      line_count (''golang-rest-api-template '' @ version b @ [CHR 0x0A]) = 1 \<and>
      line_count (''  commit: '' @ commit b @ [CHR 0x0A]) = 1 \<and>
      line_count (''  built:  '' @ date b @ [CHR 0x0A]) = 1"
    by (simp add: line_count_def filter_newline_free)
  show ?thesis
    using version_flag_Cons2 [of prog arg1 rest] version_flag_short(1) version_flag_short(2) [of prog]
      main_version [of p b pkg] main_bootstrap [of p b pkg] lines
    by blast
qed

text \<open>
  Instances: \<^verbatim>\<open>server --version\<close> and \<^verbatim>\<open>server -v extra\<close> print the three lines and read
  nothing; plain \<^verbatim>\<open>server\<close> loads the configuration (fourteen events) and runs.
\<close>

theorem main_version_query_witness:
  "version_flag (Args version_proc) \<and> version_flag (Args short_version_proc) \<and>
   \<not> version_flag (Args bare_proc) \<and>
   main dev_build (application no_faults) version_proc =
     (version_proc\<lparr>Trace :=
        [Stdout (''golang-rest-api-template dev'' @ [CHR 0x0A]),
         Stdout (''  commit: none'' @ [CHR 0x0A]),
         Stdout (''  built:  unknown'' @ [CHR 0x0A])]\<rparr>, 0) \<and>
   Trace (fst (main dev_build (application logger_broken) short_version_proc)) =
        [Stdout (''golang-rest-api-template dev'' @ [CHR 0x0A]),
         Stdout (''  commit: none'' @ [CHR 0x0A]),
         Stdout (''  built:  unknown'' @ [CHR 0x0A])] \<and>
   snd (main dev_build (application logger_broken) short_version_proc) = 0 \<and>
   line_count (''golang-rest-api-template dev'' @ [CHR 0x0A]) = 1 \<and>
   Trace (fst (main dev_build (application no_faults) bare_proc)) =
     LoadConfig_events @
     [LogLine InfoLevel ''starting application''
        [(''version'', ''dev''), (''commit'', ''none''), (''built'', ''unknown'')],
      SubsystemStart ''server'', SubsystemStop ''server''] \<and>
   snd (main dev_build (application no_faults) bare_proc) = 0"
proof -
  have v1: "version_flag (Args version_proc)"
    by (simp add: version_proc_def version_flag_def)
  have v2: "version_flag (Args short_version_proc)"
    by (simp add: short_version_proc_def version_flag_def)
  have v3: "\<not> version_flag (Args bare_proc)"
    by (simp add: bare_proc_def version_flag_def)
  have nl: "CHR 0x0A \<notin> set (version dev_build) \<and> CHR 0x0A \<notin> set (commit dev_build) \<and>
      CHR 0x0A \<notin> set (date dev_build)"
    by (simp add: dev_build_def)
  note C = main_version_query [of _ _ _ _ dev_build]
  from C [of _ _ _ version_proc "application no_faults"] v1
  have a: "main dev_build (application no_faults) version_proc =
     (version_proc\<lparr>Trace :=
        [Stdout (''golang-rest-api-template dev'' @ [CHR 0x0A]),
         Stdout (''  commit: none'' @ [CHR 0x0A]),
         Stdout (''  built:  unknown'' @ [CHR 0x0A])]\<rparr>, 0)"
    by (simp add: dev_build_def version_proc_def)
  from C [of _ _ _ short_version_proc "application logger_broken"] v2
  have b: "main dev_build (application logger_broken) short_version_proc =
     (short_version_proc\<lparr>Trace :=
        [Stdout (''golang-rest-api-template dev'' @ [CHR 0x0A]),
         Stdout (''  commit: none'' @ [CHR 0x0A]),
         Stdout (''  built:  unknown'' @ [CHR 0x0A])]\<rparr>, 0)"
    by (simp add: dev_build_def short_version_proc_def)
  from C [of _ _ _ bare_proc "application no_faults"] nl
  have c: "line_count (''golang-rest-api-template dev'' @ [CHR 0x0A]) = 1"
    by (simp add: dev_build_def)
  have d: "main dev_build (application no_faults) bare_proc =
     (bare_proc\<lparr>Environ := effective_env bare_proc,
        Trace := LoadConfig_events @
          [LogLine InfoLevel ''starting application''
             [(''version'', ''dev''), (''commit'', ''none''), (''built'', ''unknown'')],
           SubsystemStart ''server'', SubsystemStop ''server'']\<rparr>, 0)"
    using v3 by (simp add: main_clean_run dev_build_def) (simp add: bare_proc_def)
  show ?thesis using v1 v2 v3 c by (simp add: a b d)
qed

text \<open>
  C3 as stated fails. \<^verbatim>\<open>99999999999999999999x\<close> is not a numeral, yet \<^verbatim>\<open>ParseUint\<close> leaves
  its loop with a range error at the twentieth digit and never reads the \<^verbatim>\<open>x\<close>; \<^verbatim>\<open>Atoi\<close>
  returns the largest \<^verbatim>\<open>int\<close> with that error, and \<^verbatim>\<open>LoadConfig\<close> stores it.
\<close>

theorem LoadConfig_junk_after_overflow_counterexample:
  "Environ junk_after_overflow_proc ''REDIS_DB'' = Some ''99999999999999999999x'' \<and>
   \<not> numeric ''99999999999999999999x'' \<and>
   Atoi ''99999999999999999999x'' = (9223372036854775807, Some ErrRange) \<and>
   DB (redisEnv (fst (snd (LoadConfig NewService junk_after_overflow_proc)))) = 9223372036854775807 \<and>
   DB (redisEnv (fst (snd (LoadConfig NewService junk_after_overflow_proc)))) \<noteq> 0"
proof -
  have v: "Environ junk_after_overflow_proc ''REDIS_DB'' = Some ''99999999999999999999x''"
    by (simp add: junk_after_overflow_proc_def)
  have e: "effective_env junk_after_overflow_proc ''REDIS_DB'' = Some ''99999999999999999999x''"
    by (simp add: effective_env_def junk_after_overflow_proc_def no_dotenv_def)
  have r: "resolve (effective_env junk_after_overflow_proc) ''REDIS_DB'' ''0'' = ''99999999999999999999x''"
    using e by (rule resolve_Some)
  have nn: "\<not> numeric ''99999999999999999999x''"
    by (simp add: numeric_def unsigned_def is_digit_def)
  have db: "DB (redisEnv (fst (snd (LoadConfig NewService junk_after_overflow_proc)))) = 9223372036854775807"
    by (simp only: LoadConfig_DB r Atoi_spec_20_nines_x fst_conv)
  have at: "Atoi ''99999999999999999999x'' = (9223372036854775807, Some ErrRange)"
    by (simp only: Atoi_eq Atoi_spec_20_nines_x)
  show ?thesis unfolding db using v nn at by simp
qed

text \<open>
  C3, amended. If \<^verbatim>\<open>REDIS_DB\<close> is set to a string that is not a numeral, and the digits it
  starts with (after an optional sign) are at most 19 or denote a number below \<open>2 ^ 64\<close>,
  then \<^verbatim>\<open>Atoi\<close> reports a syntax error with the value 0, \<^verbatim>\<open>LoadConfig\<close> stores 0 in \<open>DB\<close> and
  returns nil: the error is discarded, not propagated.
\<close>

theorem LoadConfig_REDIS_DB_syntax_error:
  assumes "LoadConfig cnf p = (err, cnf', p')"
    and "Environ p ''REDIS_DB'' = Some v"
    and "\<not> numeric v"
    and "length (takeWhile is_digit (unsigned v)) \<le> 19 \<or>
         dec_val (takeWhile is_digit (unsigned v)) < 2 ^ 64"
  shows "Atoi v = (0, Some ErrSyntax) \<and> DB (redisEnv cnf') = 0 \<and> err = None"
proof -
  from assms(4) have "dec_val (takeWhile is_digit (unsigned v)) < 2 ^ 64"
  proof
    assume "length (takeWhile is_digit (unsigned v)) \<le> 19"
    with list_all_takeWhile [of is_digit "unsigned v"] show ?thesis
      by (rule dec_val_19)
  next
    assume "dec_val (takeWhile is_digit (unsigned v)) < 2 ^ 64"
    then show ?thesis .
  qed
  then have at: "Atoi v = (0, Some ErrSyntax)"
    using assms(3) by (simp add: Atoi_eq Atoi_spec_syntax)
  have "effective_env p ''REDIS_DB'' = Some v"
    using assms(2) by (rule effective_env_set)
  then have r: "resolve (effective_env p) ''REDIS_DB'' ''0'' = v"
    by (rule resolve_Some)
  have "DB (redisEnv (fst (snd (LoadConfig cnf p)))) = 0"
    using at by (simp only: LoadConfig_DB r Atoi_eq [symmetric] fst_conv)
  moreover have "fst (LoadConfig cnf p) = None" by (simp add: LoadConfig_eq)
  ultimately show ?thesis using at assms(1) by simp
qed

text \<open>The scenario of the spec: \<^verbatim>\<open>REDIS_DB=abc\<close>.\<close>

theorem LoadConfig_REDIS_DB_syntax_error_witness:
  "Environ scenario_proc ''REDIS_DB'' = Some ''abc'' \<and> \<not> numeric ''abc'' \<and>
   length (takeWhile is_digit (unsigned ''abc'')) \<le> 19 \<and>
   Atoi ''abc'' = (0, Some ErrSyntax) \<and>
   DB (redisEnv (fst (snd (LoadConfig NewService scenario_proc)))) = 0 \<and>
   fst (LoadConfig NewService scenario_proc) = None"
proof -
  obtain err cnf' p' where L: "LoadConfig NewService scenario_proc = (err, cnf', p')"
    by (cases "LoadConfig NewService scenario_proc") auto
  have v: "Environ scenario_proc ''REDIS_DB'' = Some ''abc''"
    by (simp add: scenario_proc_def)
  have nn: "\<not> numeric ''abc''"
    by (simp add: numeric_def unsigned_def is_digit_def)
  have len: "length (takeWhile is_digit (unsigned ''abc'')) \<le> 19"
    by (simp add: unsigned_def is_digit_def)
  then have sm: "length (takeWhile is_digit (unsigned ''abc'')) \<le> 19 \<or>
      dec_val (takeWhile is_digit (unsigned ''abc'')) < 2 ^ 64"
    by (rule disjI1)
  from LoadConfig_REDIS_DB_syntax_error [OF L v nn sm] v nn len L
  show ?thesis by simp
qed

text \<open>
  C4 as stated fails for \<open>DB\<close>. With \<^verbatim>\<open>REDIS_DB=99999999999999999999\<close> \<^verbatim>\<open>LoadConfig\<close> returns
  nil, but \<open>DB\<close> is \<open>2 ^ 63 - 1\<close>, the value \<^verbatim>\<open>Atoi\<close> returns with its range error: neither
  the number the environment supplies nor the default 0.
\<close>

theorem LoadConfig_DB_clamped_counterexample:
  "Environ overflow_proc ''REDIS_DB'' = Some ''99999999999999999999'' \<and>
   fst (LoadConfig NewService overflow_proc) = None \<and>
   DB (redisEnv (fst (snd (LoadConfig NewService overflow_proc)))) = 9223372036854775807 \<and>
   DB (redisEnv (fst (snd (LoadConfig NewService overflow_proc)))) \<noteq> int_val ''99999999999999999999'' \<and>
   DB (redisEnv (fst (snd (LoadConfig NewService overflow_proc)))) \<noteq> 0"
proof -
  have e: "effective_env overflow_proc ''REDIS_DB'' = Some ''99999999999999999999''"
    by (simp add: effective_env_def overflow_proc_def no_dotenv_def)
  have iv: "int_val ''99999999999999999999'' = 99999999999999999999"
    by (simp add: int_val_def negative_def unsigned_def dec_val_20_nines)
  have r: "resolve (effective_env overflow_proc) ''REDIS_DB'' ''0'' = ''99999999999999999999''"
    using e by (rule resolve_Some)
  have db: "DB (redisEnv (fst (snd (LoadConfig NewService overflow_proc)))) = 9223372036854775807"
    by (simp only: LoadConfig_DB r Atoi_spec_20_nines fst_conv)
  have none: "fst (LoadConfig NewService overflow_proc) = None"
    by (simp add: LoadConfig_eq)
  have v: "Environ overflow_proc ''REDIS_DB'' = Some ''99999999999999999999''"
    by (simp add: overflow_proc_def)
  show ?thesis unfolding db iv using none v by simp
qed

text \<open>
  C4, amended. \<^verbatim>\<open>LoadConfig\<close> is total and never fails: for every service and process it
  returns nil, and every field of the four groups has a value. Each string field is the
  value of its variable or the hardcoded default. \<open>DB\<close> is a number in the range of \<^verbatim>\<open>int\<close>
  as \<open>Atoi_spec\<close> gives it for the value of \<^verbatim>\<open>REDIS_DB\<close> or the default \<^verbatim>\<open>0\<close>: the number a
  numeral within the range denotes, 0 after a syntax error, and the nearest bound of
  \<^verbatim>\<open>int\<close> after a range error. The values are those of the environment the process ends
  with, which holds every variable of the caller's environment with its value and
  leaves unset every variable that neither the caller's environment nor the \<^verbatim>\<open>.env\<close> file
  sets.
\<close>

theorem LoadConfig_total:
  "\<exists>cnf' p'. LoadConfig cnf p = (None, cnf', p') \<and>
     dbEnv cnf' = documented_DBConfig (Environ p') \<and>
     redisEnv cnf' = documented_RedisConfig (Environ p') \<and>
     srvConfg cnf' = documented_ServerConf (Environ p') \<and>
     jaegerConfig cnf' = documented_JaegerConfig (Environ p') \<and>
     in_int_range (DB (redisEnv cnf')) \<and>
     Service.Name cnf' = Service.Name cnf \<and>
     (\<forall>k v. Environ p k = Some v \<longrightarrow> Environ p' k = Some v) \<and>
     (\<forall>k. Environ p k = None \<and> (case DotEnv p of Inl e \<Rightarrow> True | Inr m \<Rightarrow> m k = None) \<longrightarrow>
          Environ p' k = None)"
  by (simp add: LoadConfig_eq documented_RedisConfig_def Atoi_spec_in_range
      effective_env_set effective_env_unset)

text \<open>
  Instances: the scenario of the spec, group by group; a process with a \<^verbatim>\<open>.env\<close> file
  (\<^verbatim>\<open>DB_HOST\<close> from the process, \<^verbatim>\<open>REDIS_DB=-42\<close>); a numeral beyond the range of \<^verbatim>\<open>int\<close>; and
  the empty environment.
\<close>

theorem LoadConfig_total_witness:
  "fst (LoadConfig NewService scenario_proc) = None \<and>
   dbEnv (fst (snd (LoadConfig NewService scenario_proc))) =
     \<lparr>DBConfig.Host = ''dbhost'', DBConfig.Port = ''3306'', User = ''user'',
      DBConfig.Password = ''password'', DBConfig.Name = ''mydatabase''\<rparr> \<and>
   redisEnv (fst (snd (LoadConfig NewService scenario_proc))) =
     \<lparr>RedisConfig.Host = ''localhost'', RedisConfig.Port = ''6379'',
      RedisConfig.Password = [], DB = 0\<rparr> \<and>
   srvConfg (fst (snd (LoadConfig NewService scenario_proc))) =
     \<lparr>Address = [], ServerConf.Port = ''8080''\<rparr> \<and>
   jaegerConfig (fst (snd (LoadConfig NewService scenario_proc))) =
     \<lparr>AgentHost = ''localhost'', AgentPort = ''6831''\<rparr> \<and>
   fst (LoadConfig NewService dotenv_proc) = None \<and>
   DBConfig.Host (dbEnv (fst (snd (LoadConfig NewService dotenv_proc)))) = ''dbhost'' \<and>
   DBConfig.Port (dbEnv (fst (snd (LoadConfig NewService dotenv_proc)))) = ''3306'' \<and>
   DB (redisEnv (fst (snd (LoadConfig NewService dotenv_proc)))) = - 42 \<and>
   DB (redisEnv (fst (snd (LoadConfig NewService overflow_proc)))) = 9223372036854775807 \<and>
   dbEnv (fst (snd (LoadConfig NewService bare_proc))) =
     \<lparr>DBConfig.Host = ''localhost'', DBConfig.Port = ''3306'', User = ''user'',
      DBConfig.Password = ''password'', DBConfig.Name = ''mydatabase''\<rparr> \<and>
   DB (redisEnv (fst (snd (LoadConfig NewService bare_proc)))) = 0"
proof -
  have unchanged: "Environ q' = Environ q"
    if "DotEnv q = Inl e"
      and "\<forall>k v. Environ q k = Some v \<longrightarrow> Environ q' k = Some v"
      and "\<forall>k. Environ q k = None \<and> (case DotEnv q of Inl e \<Rightarrow> True | Inr m \<Rightarrow> m k = None) \<longrightarrow>
          Environ q' k = None"
    for q q' :: proc and e
  proof (rule ext)
    fix k
    show "Environ q' k = Environ q k"
    proof (cases "Environ q k")
      case None
      with that(1,3) show ?thesis by simp
    next
      case (Some v)
      with that(2) show ?thesis by simp
    qed
  qed
  from LoadConfig_total [of NewService scenario_proc]
  obtain c1 p1 where L1: "LoadConfig NewService scenario_proc = (None, c1, p1)"
    and g1: "dbEnv c1 = documented_DBConfig (Environ p1)"
      "redisEnv c1 = documented_RedisConfig (Environ p1)"
      "srvConfg c1 = documented_ServerConf (Environ p1)"
      "jaegerConfig c1 = documented_JaegerConfig (Environ p1)"
    and k1: "\<forall>k v. Environ scenario_proc k = Some v \<longrightarrow> Environ p1 k = Some v"
      "\<forall>k. Environ scenario_proc k = None \<and>
          (case DotEnv scenario_proc of Inl e \<Rightarrow> True | Inr m \<Rightarrow> m k = None) \<longrightarrow>
          Environ p1 k = None"
    by blast
  have d1: "DotEnv scenario_proc = Inl (ErrOther ''open .env: no such file or directory'')"
    by (simp add: scenario_proc_def no_dotenv_def)
  have "Environ p1 = Environ scenario_proc"
    using d1 k1 by (rule unchanged)
  then have e1: "Environ p1 = [''DB_HOST'' \<mapsto> ''dbhost'', ''REDIS_DB'' \<mapsto> ''abc'']"
    by (simp add: scenario_proc_def)
  have abc: "Atoi_spec ''abc'' = (0, Some ErrSyntax)"
    by (simp add: Atoi_spec_def unsigned_def is_digit_def dec_val_def)
  have s1: "fst (LoadConfig NewService scenario_proc) = None"
    "dbEnv (fst (snd (LoadConfig NewService scenario_proc))) =
     \<lparr>DBConfig.Host = ''dbhost'', DBConfig.Port = ''3306'', User = ''user'',
      DBConfig.Password = ''password'', DBConfig.Name = ''mydatabase''\<rparr>"
    "redisEnv (fst (snd (LoadConfig NewService scenario_proc))) =
     \<lparr>RedisConfig.Host = ''localhost'', RedisConfig.Port = ''6379'',
      RedisConfig.Password = [], DB = 0\<rparr>"
    "srvConfg (fst (snd (LoadConfig NewService scenario_proc))) =
     \<lparr>Address = [], ServerConf.Port = ''8080''\<rparr>"
    "jaegerConfig (fst (snd (LoadConfig NewService scenario_proc))) =
     \<lparr>AgentHost = ''localhost'', AgentPort = ''6831''\<rparr>"
    unfolding L1 fst_conv snd_conv g1 e1
    by (simp_all add: documented_DBConfig_def documented_RedisConfig_def
        documented_ServerConf_def documented_JaegerConfig_def resolve_def abc)
  from LoadConfig_total [of NewService dotenv_proc]
  obtain c2 p2 where L2: "LoadConfig NewService dotenv_proc = (None, c2, p2)"
    and g2: "dbEnv c2 = documented_DBConfig (Environ p2)"
      "redisEnv c2 = documented_RedisConfig (Environ p2)"
    and k2: "\<forall>k v. Environ dotenv_proc k = Some v \<longrightarrow> Environ p2 k = Some v"
      "\<forall>k. Environ dotenv_proc k = None \<and>
          (case DotEnv dotenv_proc of Inl e \<Rightarrow> True | Inr m \<Rightarrow> m k = None) \<longrightarrow>
          Environ p2 k = None"
    by blast
  have "Environ dotenv_proc ''DB_HOST'' = Some ''dbhost''"
    "Environ dotenv_proc ''REDIS_DB'' = Some ''-42''"
    by (simp_all add: dotenv_proc_def)
  with k2(1) have h2: "Environ p2 ''DB_HOST'' = Some ''dbhost''"
    and r2: "Environ p2 ''REDIS_DB'' = Some ''-42''" by blast+
  have "Environ dotenv_proc ''DB_PORT'' = None \<and>
      (case DotEnv dotenv_proc of Inl e \<Rightarrow> True | Inr m \<Rightarrow> m ''DB_PORT'' = None)"
    by (simp add: dotenv_proc_def)
  with k2(2) have q2: "Environ p2 ''DB_PORT'' = None" by blast
  have m42: "Atoi_spec ''-42'' = (- 42, None)"
    by (simp add: Atoi_spec_def unsigned_def negative_def is_digit_def dec_val_def
        digit_val_def Let_def)
  have s2: "fst (LoadConfig NewService dotenv_proc) = None"
    "DBConfig.Host (dbEnv (fst (snd (LoadConfig NewService dotenv_proc)))) = ''dbhost''"
    "DBConfig.Port (dbEnv (fst (snd (LoadConfig NewService dotenv_proc)))) = ''3306''"
    "DB (redisEnv (fst (snd (LoadConfig NewService dotenv_proc)))) = - 42"
    unfolding L2 fst_conv snd_conv g2
    by (simp_all add: documented_DBConfig_def documented_RedisConfig_def resolve_def
        h2 r2 q2 m42)
  from LoadConfig_total [of NewService overflow_proc]
  obtain c3 p3 where L3: "LoadConfig NewService overflow_proc = (None, c3, p3)"
    and g3: "redisEnv c3 = documented_RedisConfig (Environ p3)"
    and k3: "\<forall>k v. Environ overflow_proc k = Some v \<longrightarrow> Environ p3 k = Some v"
    by blast
  have "Environ overflow_proc ''REDIS_DB'' = Some ''99999999999999999999''"
    by (simp add: overflow_proc_def)
  with k3 have r3: "Environ p3 ''REDIS_DB'' = Some ''99999999999999999999''" by blast
  have r3': "resolve (Environ p3) ''REDIS_DB'' ''0'' = ''99999999999999999999''"
    using r3 by (rule resolve_Some)
  have s3: "DB (redisEnv (fst (snd (LoadConfig NewService overflow_proc)))) = 9223372036854775807"
    unfolding L3 fst_conv snd_conv g3 documented_RedisConfig_def
    by (simp only: r3' Atoi_spec_20_nines fst_conv RedisConfig.simps)
  from LoadConfig_total [of NewService bare_proc]
  obtain c4 p4 where L4: "LoadConfig NewService bare_proc = (None, c4, p4)"
    and g4: "dbEnv c4 = documented_DBConfig (Environ p4)"
      "redisEnv c4 = documented_RedisConfig (Environ p4)"
    and k4: "\<forall>k v. Environ bare_proc k = Some v \<longrightarrow> Environ p4 k = Some v"
      "\<forall>k. Environ bare_proc k = None \<and>
          (case DotEnv bare_proc of Inl e \<Rightarrow> True | Inr m \<Rightarrow> m k = None) \<longrightarrow>
          Environ p4 k = None"
    by blast
  have d4: "DotEnv bare_proc = Inl (ErrOther ''open .env: no such file or directory'')"
    by (simp add: bare_proc_def no_dotenv_def)
  have "Environ p4 = Environ bare_proc"
    using d4 k4 by (rule unchanged)
  then have e4: "Environ p4 = Map.empty"
    by (simp add: bare_proc_def)
  have s4: "dbEnv (fst (snd (LoadConfig NewService bare_proc))) =
     \<lparr>DBConfig.Host = ''localhost'', DBConfig.Port = ''3306'', User = ''user'',
      DBConfig.Password = ''password'', DBConfig.Name = ''mydatabase''\<rparr>"
    "DB (redisEnv (fst (snd (LoadConfig NewService bare_proc)))) = 0"
    unfolding L4 fst_conv snd_conv g4 e4
    by (simp_all add: documented_DBConfig_def documented_RedisConfig_def resolve_def
        Atoi_spec_zero)
  from s1 s2 s3 s4 show ?thesis by simp
qed

text \<open>
  C5. \<^verbatim>\<open>LoadConfig\<close> is idempotent: a second call on the service, in the process as the
  first call left it (or in the process as it was before), returns the same service;
  the four accessors return the same groups as after the first call.
\<close>

theorem LoadConfig_idempotent:
  assumes "LoadConfig cnf p = (err1, cnf1, p1)"
    and "LoadConfig cnf1 p1 = (err2, cnf2, p2)"
  shows "cnf2 = cnf1 \<and> err2 = err1 \<and>
         GetDBConfig cnf2 = GetDBConfig cnf1 \<and> GetRedisConfig cnf2 = GetRedisConfig cnf1 \<and>
         GetServerConfig cnf2 = GetServerConfig cnf1 \<and> GetJaegerConfig cnf2 = GetJaegerConfig cnf1 \<and>
         Environ p2 = Environ p1 \<and> DotEnv p2 = DotEnv p1 \<and>
         fst (snd (LoadConfig cnf1 p)) = cnf1"
proof -
  let ?E = "effective_env p"
  from assms(1) have c1: "cnf1 = cnf\<lparr>dbEnv := documented_DBConfig ?E,
        redisEnv := documented_RedisConfig ?E, srvConfg := documented_ServerConf ?E,
        jaegerConfig := documented_JaegerConfig ?E\<rparr>"
    and p1: "p1 = p\<lparr>Environ := ?E, Trace := Trace p @ LoadConfig_events\<rparr>"
    and e1: "err1 = None"
    by (auto simp: LoadConfig_eq)
  have E1: "effective_env p1 = ?E"
    unfolding p1 by (rule effective_env_idem)
  from assms(2) have c2: "cnf2 = cnf1\<lparr>dbEnv := documented_DBConfig ?E,
        redisEnv := documented_RedisConfig ?E, srvConfg := documented_ServerConf ?E,
        jaegerConfig := documented_JaegerConfig ?E\<rparr>"
    and p2: "p2 = p1\<lparr>Environ := ?E, Trace := Trace p1 @ LoadConfig_events\<rparr>"
    and e2: "err2 = None"
    by (auto simp: LoadConfig_eq E1)
  have same: "cnf2 = cnf1" unfolding c2 unfolding c1 by simp
  have again: "fst (snd (LoadConfig cnf1 p)) = cnf1"
    unfolding LoadConfig_service unfolding c1 by simp
  have "Environ p2 = Environ p1" "DotEnv p2 = DotEnv p1"
    unfolding p2 unfolding p1 by simp_all
  with same e1 e2 again show ?thesis by simp
qed

text \<open>An instance with a \<^verbatim>\<open>.env\<close> file, whose pairs the first call puts into the environment.\<close>

theorem LoadConfig_idempotent_witness:
  "fst (snd (LoadConfig (fst (snd (LoadConfig NewService dotenv_proc)))
                        (snd (snd (LoadConfig NewService dotenv_proc))))) =
   fst (snd (LoadConfig NewService dotenv_proc)) \<and>
   DBConfig.Host (GetDBConfig (fst (snd (LoadConfig NewService dotenv_proc)))) = ''dbhost'' \<and>
   ServerConf.Port (GetServerConfig (fst (snd (LoadConfig NewService dotenv_proc)))) = ''9090''"
proof -
  obtain err1 cnf1 p1 where L1: "LoadConfig NewService dotenv_proc = (err1, cnf1, p1)"
    by (cases "LoadConfig NewService dotenv_proc") auto
  obtain err2 cnf2 p2 where L2: "LoadConfig cnf1 p1 = (err2, cnf2, p2)"
    by (cases "LoadConfig cnf1 p1") auto
  from LoadConfig_idempotent [OF L1 L2] have "cnf2 = cnf1" by simp
  then have a: "fst (snd (LoadConfig (fst (snd (LoadConfig NewService dotenv_proc)))
                        (snd (snd (LoadConfig NewService dotenv_proc))))) =
      fst (snd (LoadConfig NewService dotenv_proc))"
    by (simp add: L1 L2)
  have b: "DBConfig.Host (GetDBConfig (fst (snd (LoadConfig NewService dotenv_proc)))) = ''dbhost''"
    "ServerConf.Port (GetServerConfig (fst (snd (LoadConfig NewService dotenv_proc)))) = ''9090''"
    by (simp_all add: LoadConfig_service GetDBConfig_def GetServerConfig_def
        documented_DBConfig_def documented_ServerConf_def effective_env_dotenv_proc
        resolve_def map_add_def)
  from a b show ?thesis by simp
qed

text \<open>
  C6. After \<^verbatim>\<open>LoadConfig\<close> has returned, each of the four accessors returns the group that
  \<^verbatim>\<open>LoadConfig\<close> stored, and that group is complete: every field holds the value resolved
  from the environment read. The accessors are total on the service the receiver points
  to; the receiver is not nil, since \<^verbatim>\<open>LoadConfig\<close> returned on it.
\<close>

theorem accessors_return_loaded_groups:
  assumes "LoadConfig cnf p = (err, cnf', p')"
  shows "GetDBConfig cnf' = dbEnv cnf' \<and> GetRedisConfig cnf' = redisEnv cnf' \<and>
         GetServerConfig cnf' = srvConfg cnf' \<and> GetJaegerConfig cnf' = jaegerConfig cnf' \<and>
         GetDBConfig cnf' = documented_DBConfig (Environ p') \<and>
         GetRedisConfig cnf' = documented_RedisConfig (Environ p') \<and>
         GetServerConfig cnf' = documented_ServerConf (Environ p') \<and>
         GetJaegerConfig cnf' = documented_JaegerConfig (Environ p')"
  using assms
  by (auto simp: LoadConfig_eq GetDBConfig_def GetRedisConfig_def GetServerConfig_def
      GetJaegerConfig_def)

text \<open>The scenario of the spec, group by group.\<close>

theorem accessors_return_loaded_groups_witness:
  "GetDBConfig (fst (snd (LoadConfig NewService scenario_proc))) =
     \<lparr>DBConfig.Host = ''dbhost'', DBConfig.Port = ''3306'', User = ''user'',
      DBConfig.Password = ''password'', DBConfig.Name = ''mydatabase''\<rparr> \<and>
   GetRedisConfig (fst (snd (LoadConfig NewService scenario_proc))) =
     \<lparr>RedisConfig.Host = ''localhost'', RedisConfig.Port = ''6379'',
      RedisConfig.Password = [], DB = 0\<rparr> \<and>
   GetServerConfig (fst (snd (LoadConfig NewService scenario_proc))) =
     \<lparr>Address = [], ServerConf.Port = ''8080''\<rparr> \<and>
   GetJaegerConfig (fst (snd (LoadConfig NewService scenario_proc))) =
     \<lparr>AgentHost = ''localhost'', AgentPort = ''6831''\<rparr>"
proof -
  obtain err cnf' p' where L: "LoadConfig NewService scenario_proc = (err, cnf', p')"
    by (cases "LoadConfig NewService scenario_proc") auto
  have "Environ p' = effective_env scenario_proc" using L by (auto simp: LoadConfig_eq)
  then have env: "Environ p' = [''DB_HOST'' \<mapsto> ''dbhost'', ''REDIS_DB'' \<mapsto> ''abc'']"
    by (simp add: effective_env_def scenario_proc_def no_dotenv_def)
  have abc: "Atoi_spec ''abc'' = (0, Some ErrSyntax)"
    by (simp add: Atoi_spec_def unsigned_def is_digit_def dec_val_def)
  from accessors_return_loaded_groups [OF L]
  have g: "GetDBConfig cnf' = documented_DBConfig (Environ p')"
    "GetRedisConfig cnf' = documented_RedisConfig (Environ p')"
    "GetServerConfig cnf' = documented_ServerConf (Environ p')"
    "GetJaegerConfig cnf' = documented_JaegerConfig (Environ p')"
    by blast+
  show ?thesis
    unfolding L fst_conv snd_conv g env
    by (simp add: documented_DBConfig_def documented_RedisConfig_def
        documented_ServerConf_def documented_JaegerConfig_def resolve_def abc)
qed

text \<open>
  C7. If \<^verbatim>\<open>Initialize\<close> returns an error, \<^verbatim>\<open>main\<close> logs one line at fatal level with the
  message and the error's text and the process ends with a non-zero status; \<^verbatim>\<open>Run\<close> is not
  called (the outcome is the same whatever \<^verbatim>\<open>Run\<close> is). The exit status is 0 exactly on a
  version query or when \<^verbatim>\<open>Initialize\<close> and \<^verbatim>\<open>Run\<close> both return nil.
\<close>

theorem main_initialize_failure_is_fatal:
  "(\<not> version_flag (Args p) \<and> Initialize pkg (NewApplication pkg) p = (Some e, app1, p1) \<longrightarrow>
      main b pkg p =
        (p1\<lparr>Trace := Trace p1 @
           [LogLine FatalLevel ''failed to initialize application'' [(''error'', Error e)]]\<rparr>, 1) \<and>
      snd (main b pkg p) \<noteq> 0 \<and>
      (\<forall>r. main b (pkg\<lparr>Run := r\<rparr>) p = main b pkg p)) \<and>
   (snd (main b pkg p) = 0 \<longleftrightarrow>
      version_flag (Args p) \<or>
      (\<exists>app1 p1 app2 p3.
         Initialize pkg (NewApplication pkg) p = (None, app1, p1) \<and>
         Run pkg app1
           (Logger_Info (GetLogger pkg app1) ''starting application''
              [(''version'', version b), (''commit'', commit b), (''built'', date b)] p1) =
         (None, app2, p3)))"
proof (intro conjI impI allI)
  assume h: "\<not> version_flag (Args p) \<and> Initialize pkg (NewApplication pkg) p = (Some e, app1, p1)"
  then show m: "main b pkg p =
        (p1\<lparr>Trace := Trace p1 @
           [LogLine FatalLevel ''failed to initialize application'' [(''error'', Error e)]]\<rparr>, 1)"
    by (simp add: main_bootstrap Logger_Fatal_def emit_def)
  then show "snd (main b pkg p) \<noteq> 0" by simp
  fix r
  from h have "main b (pkg\<lparr>Run := r\<rparr>) p =
        (p1\<lparr>Trace := Trace p1 @
           [LogLine FatalLevel ''failed to initialize application'' [(''error'', Error e)]]\<rparr>, 1)"
    by (simp add: main_bootstrap Logger_Fatal_def emit_def)
  with m show "main b (pkg\<lparr>Run := r\<rparr>) p = main b pkg p" by simp
next
  show "snd (main b pkg p) = 0 \<longleftrightarrow>
      version_flag (Args p) \<or>
      (\<exists>app1 p1 app2 p3.
         Initialize pkg (NewApplication pkg) p = (None, app1, p1) \<and>
         Run pkg app1
           (Logger_Info (GetLogger pkg app1) ''starting application''
              [(''version'', version b), (''commit'', commit b), (''built'', date b)] p1) =
         (None, app2, p3))"
  proof (cases "version_flag (Args p)")
    case True
    then show ?thesis by (simp add: main_version)
  next
    case False
    then show ?thesis
      by (auto simp: main_bootstrap Logger_Fatal_def split: prod.splits option.splits)
  qed
qed

text \<open>
  Instances: the logger cannot be constructed (fatal line, status 1, no subsystem
  started); all goes well (status 0); wiring fails after the configuration was loaded
  (status 1).
\<close>

theorem main_initialize_failure_is_fatal_witness:
  "\<not> version_flag (Args bare_proc) \<and>
   fst (Initialize (application logger_broken) (NewApplication (application logger_broken)) bare_proc) =
     Some (ErrOther ''logger: cannot open sink'') \<and>
   main dev_build (application logger_broken) bare_proc =
     (bare_proc\<lparr>Trace :=
        [LogLine FatalLevel ''failed to initialize application''
           [(''error'', ''logger: cannot open sink'')]]\<rparr>, 1) \<and>
   snd (main dev_build (application no_faults) bare_proc) = 0 \<and>
   snd (main dev_build (application wiring_broken) bare_proc) = 1"
proof -
  have v: "\<not> version_flag (Args bare_proc)"
    by (simp add: bare_proc_def version_flag_def)
  have i: "Initialize (application logger_broken) (NewApplication (application logger_broken)) bare_proc =
      (Some (ErrOther ''logger: cannot open sink''),
       \<lparr>state = Uninitialized, config = NewService\<rparr>, bare_proc)"
    by (simp add: application_def Application_Initialize_def logger_broken_def no_faults_def)
  from main_initialize_failure_is_fatal [of bare_proc "application logger_broken"
      "ErrOther ''logger: cannot open sink''" "\<lparr>state = Uninitialized, config = NewService\<rparr>"
      bare_proc dev_build] v i
  have a: "main dev_build (application logger_broken) bare_proc =
     (bare_proc\<lparr>Trace := Trace bare_proc @
        [LogLine FatalLevel ''failed to initialize application''
           [(''error'', Error (ErrOther ''logger: cannot open sink''))]]\<rparr>, 1)"
    by blast
  have t: "Trace bare_proc = []" by (simp add: bare_proc_def)
  have b: "snd (main dev_build (application no_faults) bare_proc) = 0"
    using v by (simp add: main_clean_run)
  have w: "Initialize (application wiring_broken) (NewApplication (application wiring_broken)) bare_proc =
      (Some (ErrOther ''database: connection refused''),
       \<lparr>state = Uninitialized, config = fst (snd (LoadConfig NewService bare_proc))\<rparr>,
       snd (snd (LoadConfig NewService bare_proc)))"
    by (simp add: application_def Application_Initialize_def wiring_broken_def no_faults_def
        Init_def LoadConfig_eq)
  from main_initialize_failure_is_fatal [of bare_proc "application wiring_broken" _ _ _ dev_build] v w
  have c: "snd (main dev_build (application wiring_broken) bare_proc) = 1"
    by simp
  show ?thesis using v by (simp add: a i t b c)
qed

text \<open>
  C8. \<^verbatim>\<open>Run\<close> on a controller in any state other than \<open>Initialized\<close> returns an error and
  has no effect: the controller and the process are unchanged, so no subsystem starts.
  This holds in particular after an \<^verbatim>\<open>Initialize\<close> that failed.
\<close>

theorem Run_requires_Initialized:
  "(state app \<noteq> Initialized \<longrightarrow> (\<exists>e. Application_Run f app p = (Some e, app, p))) \<and>
   (state app \<noteq> Initialized \<longrightarrow> (\<exists>e. Run (application f) app p = (Some e, app, p))) \<and>
   (state app \<noteq> Initialized \<and> Application_Initialize f app p = (Some e, app1, p1) \<longrightarrow>
      (\<exists>e'. Application_Run f app1 p1 = (Some e', app1, p1)))"
proof -
  have run: "\<And>a q. state a \<noteq> Initialized \<Longrightarrow> \<exists>e. Application_Run f a q = (Some e, a, q)"
    by (simp add: Application_Run_def)
  have keep: "state app \<noteq> Initialized \<and> Application_Initialize f app p = (Some e, app1, p1) \<longrightarrow>
      state app1 \<noteq> Initialized"
    by (auto simp: Application_Initialize_def split: if_splits option.splits prod.splits)
  show ?thesis using run keep by (simp add: application_def)
qed

text \<open>
  Instances: \<^verbatim>\<open>Run\<close> on a new application is refused; on an initialized one it starts and
  stops the server.
\<close>

theorem Run_requires_Initialized_witness:
  "state (NewApplication (application no_faults)) \<noteq> Initialized \<and>
   Run (application no_faults) (NewApplication (application no_faults)) bare_proc =
     (Some (ErrOther ''application: Run called before Initialize''),
      NewApplication (application no_faults), bare_proc) \<and>
   Trace (snd (snd (Run (application no_faults)
      \<lparr>state = Initialized, config = NewService\<rparr> bare_proc))) =
     [SubsystemStart ''server'', SubsystemStop ''server'']"
proof -
  have s: "state (NewApplication (application no_faults)) \<noteq> Initialized"
    by (simp add: application_def)
  from Run_requires_Initialized [of "NewApplication (application no_faults)" no_faults bare_proc] s
  obtain e where r: "Run (application no_faults) (NewApplication (application no_faults)) bare_proc =
      (Some e, NewApplication (application no_faults), bare_proc)"
    by blast
  then have "e = ErrOther ''application: Run called before Initialize''"
    by (simp add: application_def Application_Run_def)
  with r have a: "Run (application no_faults) (NewApplication (application no_faults)) bare_proc =
     (Some (ErrOther ''application: Run called before Initialize''),
      NewApplication (application no_faults), bare_proc)"
    by simp
  have b: "Trace (snd (snd (Run (application no_faults)
      \<lparr>state = Initialized, config = NewService\<rparr> bare_proc))) =
     [SubsystemStart ''server'', SubsystemStop ''server'']"
    by (simp add: application_def Application_Run_def Let_def emit_def bare_proc_def)
  from s a b show ?thesis by simp
qed

text \<open>
  C9 as stated fails for \<^verbatim>\<open>REDIS_DB\<close>, whose field is an \<^verbatim>\<open>int\<close>: set to the empty string it
  gives \<open>DB = 0\<close>, the same as the default gives when the variable is unset.
\<close>

theorem LoadConfig_empty_REDIS_DB_counterexample:
  "Environ empty_values_proc ''REDIS_DB'' = Some [] \<and>
   Environ bare_proc ''REDIS_DB'' = None \<and>
   DB (redisEnv (fst (snd (LoadConfig NewService empty_values_proc)))) = 0 \<and>
   DB (redisEnv (fst (snd (LoadConfig NewService bare_proc)))) = 0"
proof -
  have e: "effective_env empty_values_proc ''REDIS_DB'' = Some []"
    by (simp add: effective_env_def empty_values_proc_def map_add_def)
  have r: "resolve (effective_env empty_values_proc) ''REDIS_DB'' ''0'' = []"
    using e by (rule resolve_Some)
  have e0: "effective_env bare_proc ''REDIS_DB'' = None"
    by (simp add: effective_env_def bare_proc_def no_dotenv_def)
  have r0: "resolve (effective_env bare_proc) ''REDIS_DB'' ''0'' = ''0''"
    using e0 by (rule resolve_None)
  have nil: "Atoi_spec [] = (0, Some ErrSyntax)"
    by (simp add: Atoi_spec_def unsigned_def)
  have a: "DB (redisEnv (fst (snd (LoadConfig NewService empty_values_proc)))) = 0"
    by (simp only: LoadConfig_DB r nil fst_conv)
  have b: "DB (redisEnv (fst (snd (LoadConfig NewService bare_proc)))) = 0"
    by (simp only: LoadConfig_DB r0 Atoi_spec_zero fst_conv)
  show ?thesis unfolding a b by (simp add: empty_values_proc_def bare_proc_def)
qed

text \<open>
  C9, amended. For each of the twelve string variables, if it is set to the empty
  string, the field is the empty string and not the default: \<^verbatim>\<open>getEnv\<close> decides by the
  presence of the variable. For \<^verbatim>\<open>REDIS_DB\<close> set to the empty string \<^verbatim>\<open>getEnv\<close> also returns
  the empty string; \<^verbatim>\<open>Atoi\<close> rejects it and \<open>DB\<close> is 0.
\<close>

theorem LoadConfig_empty_string_is_a_value:
  assumes "LoadConfig cnf p = (err, cnf', p')"
  shows "(Environ p ''DB_HOST'' = Some [] \<longrightarrow> DBConfig.Host (dbEnv cnf') = []) \<and>
         (Environ p ''DB_PORT'' = Some [] \<longrightarrow> DBConfig.Port (dbEnv cnf') = []) \<and>
         (Environ p ''DB_USER'' = Some [] \<longrightarrow> User (dbEnv cnf') = []) \<and>
         (Environ p ''DB_PASSWORD'' = Some [] \<longrightarrow> DBConfig.Password (dbEnv cnf') = []) \<and>
         (Environ p ''DB_NAME'' = Some [] \<longrightarrow> DBConfig.Name (dbEnv cnf') = []) \<and>
         (Environ p ''REDIS_HOST'' = Some [] \<longrightarrow> RedisConfig.Host (redisEnv cnf') = []) \<and>
         (Environ p ''REDIS_PORT'' = Some [] \<longrightarrow> RedisConfig.Port (redisEnv cnf') = []) \<and>
         (Environ p ''REDIS_PASSWORD'' = Some [] \<longrightarrow> RedisConfig.Password (redisEnv cnf') = []) \<and>
         (Environ p ''SERVER_ADDR'' = Some [] \<longrightarrow> Address (srvConfg cnf') = []) \<and>
         (Environ p ''SERVER_PORT'' = Some [] \<longrightarrow> ServerConf.Port (srvConfg cnf') = []) \<and>
         (Environ p ''JAEGER_AGENT_HOST'' = Some [] \<longrightarrow> AgentHost (jaegerConfig cnf') = []) \<and>
         (Environ p ''JAEGER_AGENT_PORT'' = Some [] \<longrightarrow> AgentPort (jaegerConfig cnf') = []) \<and>
         (Environ p ''REDIS_DB'' = Some [] \<longrightarrow>
            DB (redisEnv cnf') = 0 \<and> Atoi [] = (0, Some ErrSyntax)) \<and>
         (\<forall>key d q. Environ q key = Some [] \<longrightarrow> fst (getEnv key d q) = [])"
proof -
  let ?E = "effective_env p"
  from assms have cnf': "cnf' = cnf\<lparr>dbEnv := documented_DBConfig ?E,
        redisEnv := documented_RedisConfig ?E, srvConfg := documented_ServerConf ?E,
        jaegerConfig := documented_JaegerConfig ?E\<rparr>"
    by (auto simp: LoadConfig_eq)
  have set: "\<And>k d. Environ p k = Some [] \<Longrightarrow> resolve ?E k d = []"
    by (simp add: effective_env_set resolve_Some)
  have nil: "Atoi_spec [] = (0, Some ErrSyntax)"
    by (simp add: Atoi_spec_def unsigned_def)
  have get: "\<forall>key d q. Environ q key = Some [] \<longrightarrow> fst (getEnv key d q) = []"
    by (simp add: getEnv_eq resolve_Some)
  show ?thesis
    unfolding cnf'
    using get
    by (simp add: documented_DBConfig_def documented_RedisConfig_def
        documented_ServerConf_def documented_JaegerConfig_def set nil Atoi_eq)
qed

text \<open>
  An instance: \<^verbatim>\<open>DB_HOST\<close> set to the empty string (and to a host name in \<^verbatim>\<open>.env\<close>) gives the
  empty host; unset it gives \<^verbatim>\<open>localhost\<close>.
\<close>

theorem LoadConfig_empty_string_is_a_value_witness:
  "Environ empty_values_proc ''DB_HOST'' = Some [] \<and>
   DBConfig.Host (dbEnv (fst (snd (LoadConfig NewService empty_values_proc)))) = [] \<and>
   DBConfig.Host (dbEnv (fst (snd (LoadConfig NewService bare_proc)))) = ''localhost'' \<and>
   Environ empty_values_proc ''REDIS_DB'' = Some [] \<and>
   DB (redisEnv (fst (snd (LoadConfig NewService empty_values_proc)))) = 0"
proof -
  obtain err cnf' p' where L: "LoadConfig NewService empty_values_proc = (err, cnf', p')"
    by (cases "LoadConfig NewService empty_values_proc") auto
  have v: "Environ empty_values_proc ''DB_HOST'' = Some []"
    "Environ empty_values_proc ''REDIS_DB'' = Some []"
    by (simp_all add: empty_values_proc_def)
  from LoadConfig_empty_string_is_a_value [OF L] v
  have "DBConfig.Host (dbEnv cnf') = []" "DB (redisEnv cnf') = 0" by blast+
  moreover have "DBConfig.Host (dbEnv (fst (snd (LoadConfig NewService bare_proc)))) = ''localhost''"
    by (simp add: LoadConfig_service documented_DBConfig_def effective_env_def bare_proc_def
        no_dotenv_def resolve_def)
  ultimately show ?thesis using v by (simp add: L)
qed

text \<open>
  C10. Whatever error \<^verbatim>\<open>godotenv.Load\<close> returns (no file, an unreadable or a malformed
  one), \<^verbatim>\<open>LoadConfig\<close> discards it: it returns nil, the process environment is
  unchanged, and every field is resolved from the process environment and defaults.
\<close>

theorem LoadConfig_discards_dotenv_error:
  assumes "DotEnv p = Inl e"
  shows "fst (godotenv_Load p) = Some e \<and>
         (\<exists>cnf' p'. LoadConfig cnf p = (None, cnf', p') \<and>
            Environ p' = Environ p \<and>
            dbEnv cnf' = documented_DBConfig (Environ p) \<and>
            redisEnv cnf' = documented_RedisConfig (Environ p) \<and>
            srvConfg cnf' = documented_ServerConf (Environ p) \<and>
            jaegerConfig cnf' = documented_JaegerConfig (Environ p))"
proof -
  have "effective_env p = Environ p" using assms by (simp add: effective_env_def)
  then show ?thesis using assms by (simp add: LoadConfig_eq godotenv_Load_def)
qed

text \<open>An instance: a malformed \<^verbatim>\<open>.env\<close> file.\<close>

theorem LoadConfig_discards_dotenv_error_witness:
  "DotEnv malformed_dotenv_proc = Inl (ErrOther ''unexpected character in variable name'') \<and>
   fst (godotenv_Load malformed_dotenv_proc) = Some (ErrOther ''unexpected character in variable name'') \<and>
   fst (LoadConfig NewService malformed_dotenv_proc) = None \<and>
   DBConfig.Host (dbEnv (fst (snd (LoadConfig NewService malformed_dotenv_proc)))) = ''dbhost'' \<and>
   DBConfig.Port (dbEnv (fst (snd (LoadConfig NewService malformed_dotenv_proc)))) = ''3306''"
proof -
  have d: "DotEnv malformed_dotenv_proc = Inl (ErrOther ''unexpected character in variable name'')"
    by (simp add: malformed_dotenv_proc_def)
  from LoadConfig_discards_dotenv_error [OF d, of NewService]
  obtain cnf' p' where L: "LoadConfig NewService malformed_dotenv_proc = (None, cnf', p')"
    and g: "dbEnv cnf' = documented_DBConfig (Environ malformed_dotenv_proc)"
    and l: "fst (godotenv_Load malformed_dotenv_proc) = Some (ErrOther ''unexpected character in variable name'')"
    by blast
  have env: "Environ malformed_dotenv_proc = [''DB_HOST'' \<mapsto> ''dbhost'']"
    by (simp add: malformed_dotenv_proc_def)
  show ?thesis
    using d l by (simp add: L g env documented_DBConfig_def resolve_def)
qed

end
